theory Spec2Isabelle
  imports Main "HOL-Library.Word"
begin

section \<open>JavaScript values\<close>

text \<open>
  A JavaScript string is a sequence of UTF-16 code units. ASCII literals of the source are
  embedded with \<open>js\<close>.
\<close>

type_synonym jsstring = "16 word list"

definition js :: "string \<Rightarrow> jsstring" where
  "js s = map of_char s"

text \<open>Truthiness of a value of type \<^verbatim>\<open>string | null | undefined\<close>: the empty string is falsy.\<close>

definition truthy :: "jsstring option \<Rightarrow> bool" where
  "truthy v = (case v of None \<Rightarrow> False | Some s \<Rightarrow> s \<noteq> [])"

text \<open>
  \<^verbatim>\<open>String.prototype.trim\<close> strips the ECMAScript WhiteSpace and LineTerminator code points
  (TAB, VT, FF, the Unicode space separators, ZWNBSP, LF, CR, LS, PS) from both ends.
\<close>

definition isWhiteSpace :: "16 word \<Rightarrow> bool" where
  "isWhiteSpace c \<longleftrightarrow>
     c = 0x09 \<or> c = 0x0A \<or> c = 0x0B \<or> c = 0x0C \<or> c = 0x0D \<or> c = 0x20 \<or> c = 0xA0 \<or>
     c = 0x1680 \<or> (0x2000 \<le> c \<and> c \<le> 0x200A) \<or> c = 0x2028 \<or> c = 0x2029 \<or>
     c = 0x202F \<or> c = 0x205F \<or> c = 0x3000 \<or> c = 0xFEFF"

definition trim :: "jsstring \<Rightarrow> jsstring" where
  "trim s = rev (dropWhile isWhiteSpace (rev (dropWhile isWhiteSpace s)))"

definition startsWith :: "jsstring \<Rightarrow> jsstring \<Rightarrow> bool" where
  "startsWith s p \<longleftrightarrow> take (length p) s = p"

text \<open>\<^verbatim>\<open>s.split(c)\<close> for a one-character separator: always at least one piece.\<close>

fun split :: "16 word \<Rightarrow> jsstring \<Rightarrow> jsstring list" where
  "split c [] = [[]]"
| "split c (x # xs) =
     (if x = c then [] # split c xs
      else (case split c xs of p # ps \<Rightarrow> (x # p) # ps | [] \<Rightarrow> [[x]]))"

text \<open>Array indexing \<^verbatim>\<open>xs[i]\<close>: \<^verbatim>\<open>undefined\<close> out of range.\<close>

definition at :: "'a list \<Rightarrow> int \<Rightarrow> 'a option" where
  "at xs i = (if 0 \<le> i \<and> i < int (length xs) then Some (xs ! nat i) else None)"

text \<open>\<^verbatim>\<open>xs.slice(0, e)\<close>: a negative end counts from the end of the array, and the end is clamped.\<close>

definition slice0 :: "'a list \<Rightarrow> int \<Rightarrow> 'a list" where
  "slice0 xs e =
     (let len = int (length xs);
          final = (if e < 0 then max (len + e) 0 else min e len)
      in take (nat final) xs)"

text \<open>
  A thrown value: an \<^verbatim>\<open>Error\<close> with its message, a \<^verbatim>\<open>TypeError\<close> raised by the engine on a
  property access of \<^verbatim>\<open>undefined\<close> (its message is the engine's), or a value that is no
  \<^verbatim>\<open>Error\<close> and has no \<^verbatim>\<open>message\<close> (the \<^verbatim>\<open>ProgressEvent\<close> of a failed file read).
\<close>

datatype thrown = Error jsstring | TypeError | NonError

text \<open>\<^verbatim>\<open>e instanceof Error\<close> and \<^verbatim>\<open>e.message\<close>; \<open>te\<close> is the engine's TypeError text.\<close>

fun instanceofError :: "thrown \<Rightarrow> bool" where
  "instanceofError (Error m) = True"
| "instanceofError TypeError = True"
| "instanceofError NonError = False"

fun message :: "jsstring \<Rightarrow> thrown \<Rightarrow> jsstring option" where
  "message te (Error m) = Some m"
| "message te TypeError = Some te"
| "message te NonError = None"

text \<open>\<^verbatim>\<open>e.message || dflt\<close>\<close>

definition messageOr :: "jsstring \<Rightarrow> thrown \<Rightarrow> jsstring \<Rightarrow> jsstring" where
  "messageOr te e dflt = (if truthy (message te e) then the (message te e) else dflt)"

section \<open>App.tsx: the workspace state\<close>

record File =
  fileName :: jsstring
  fileType :: jsstring
  fileBytes :: "8 word list"

record HistoryState =
  imageUrl :: "jsstring option"
  prompt :: jsstring
  sceneImage :: "File option"
  productImage :: "File option"

datatype imageType = Scene | Product

datatype panel = Images | Tools

datatype onboarding = StepProduct | StepScene | StepWorkspace

text \<open>
  The \<^verbatim>\<open>useState\<close> cells of the component. The free-text input \<^verbatim>\<open>prompt\<close> is named
  \<open>promptInput\<close> here, the field \<open>prompt\<close> being the one of \<open>HistoryState\<close>.
\<close>

record App =
  history :: "HistoryState list"
  currentHistoryIndex :: int
  promptInput :: jsstring
  isLoading :: bool
  error :: "jsstring option"
  cameraFor :: "imageType option"
  mobilePanel :: "panel option"
  mobileOnboardingStep :: onboarding
  highlightTools :: bool

definition emptyHistoryState :: HistoryState where
  "emptyHistoryState = \<lparr>imageUrl = None, prompt = [], sceneImage = None, productImage = None\<rparr>"

text \<open>The initial cells; \<open>innerWidth\<close> is \<^verbatim>\<open>window.innerWidth\<close> at mount.\<close>

definition initialApp :: "int \<Rightarrow> App" where
  "initialApp innerWidth =
     \<lparr>history = [emptyHistoryState], currentHistoryIndex = 0, promptInput = [],
      isLoading = False, error = None, cameraFor = None, mobilePanel = None,
      mobileOnboardingStep = (if innerWidth < 768 then StepProduct else StepWorkspace),
      highlightTools = False\<rparr>"

text \<open>\<^verbatim>\<open>const currentState = history[currentHistoryIndex]\<close>\<close>

definition currentState :: "App \<Rightarrow> HistoryState option" where
  "currentState st = at (history st) (currentHistoryIndex st)"

text \<open>
  The render reads \<^verbatim>\<open>currentState.sceneImage\<close>: with \<^verbatim>\<open>currentState\<close> undefined it throws and
  the component tree is unmounted, so that no handler runs any more.
\<close>

definition renders :: "App \<Rightarrow> bool" where
  "renders st \<longleftrightarrow> currentState st \<noteq> None"

text \<open>
  \<^verbatim>\<open>Partial<HistoryState>\<close>: each field present or absent. The spread
  \<^verbatim>\<open>{ ...currentState, ...newState, prompt: action }\<close> takes the fields of \<^verbatim>\<open>newState\<close> that
  are present; spreading an undefined \<^verbatim>\<open>currentState\<close> contributes no field, which reads
  as \<^verbatim>\<open>undefined\<close> (falsy, as \<^verbatim>\<open>null\<close>).
\<close>

record PartialHistoryState =
  imageUrl_p :: "jsstring option option"
  prompt_p :: "jsstring option"
  sceneImage_p :: "File option option"
  productImage_p :: "File option option"

definition spread :: "HistoryState option \<Rightarrow> PartialHistoryState \<Rightarrow> jsstring \<Rightarrow> HistoryState" where
  "spread cur newState action =
     (let base = (case cur of None \<Rightarrow> emptyHistoryState | Some c \<Rightarrow> c)
      in \<lparr>imageUrl = (case imageUrl_p newState of None \<Rightarrow> imageUrl base | Some v \<Rightarrow> v),
          prompt = action,
          sceneImage = (case sceneImage_p newState of None \<Rightarrow> sceneImage base | Some v \<Rightarrow> v),
          productImage = (case productImage_p newState of None \<Rightarrow> productImage base | Some v \<Rightarrow> v)\<rparr>)"

definition updateStateAndHistory :: "App \<Rightarrow> PartialHistoryState \<Rightarrow> jsstring \<Rightarrow> App" where
  "updateStateAndHistory st newState action =
     (let newHistoryState = spread (currentState st) newState action;
          newHistory = slice0 (history st) (currentHistoryIndex st + 1) @ [newHistoryState]
      in st\<lparr>history := newHistory, currentHistoryIndex := int (length newHistory) - 1\<rparr>)"

text \<open>
  \<open>updateStateWithNewImage\<close> reads \<^verbatim>\<open>currentState.sceneImage\<close> before any setter runs: with
  \<^verbatim>\<open>currentState\<close> undefined it throws a TypeError and no cell changes.
\<close>

definition updateStateWithNewImage ::
  "int \<Rightarrow> App \<Rightarrow> File \<Rightarrow> imageType \<Rightarrow> jsstring \<Rightarrow> thrown + App" where
  "updateStateWithNewImage innerWidth st file imageType action =
     (case currentState st of
        None \<Rightarrow> Inl TypeError
      | Some cur \<Rightarrow>
          let newHistoryState =
                cur\<lparr>sceneImage := (if imageType = Scene then Some file else sceneImage cur),
                    productImage := (if imageType = Product then Some file else productImage cur),
                    prompt := action\<rparr>;
              st1 = (if sceneImage cur = None \<and> productImage cur = None
                     then st\<lparr>history := [newHistoryState], currentHistoryIndex := 0\<rparr>
                     else let newHistory =
                                slice0 (history st) (currentHistoryIndex st + 1) @ [newHistoryState]
                          in st\<lparr>history := newHistory,
                                currentHistoryIndex := int (length newHistory) - 1\<rparr>)
          in Inr (if innerWidth < 768 \<and> imageType = Product
                  then st1\<lparr>mobileOnboardingStep := StepScene\<rparr> else st1))"

text \<open>An exception escaping an event handler leaves the cells as they were.\<close>

definition orUnchanged :: "App \<Rightarrow> thrown + App \<Rightarrow> App" where
  "orUnchanged st r = (case r of Inl e \<Rightarrow> st | Inr st' \<Rightarrow> st')"

definition imageTypeName :: "imageType \<Rightarrow> jsstring" where
  "imageTypeName t = (case t of Scene \<Rightarrow> js ''scene'' | Product \<Rightarrow> js ''product'')"

text \<open>\<open>file\<close> is \<^verbatim>\<open>event.target.files?.[0]\<close>.\<close>

definition handleImageUpload :: "int \<Rightarrow> App \<Rightarrow> File option \<Rightarrow> imageType \<Rightarrow> thrown + App" where
  "handleImageUpload innerWidth st file imageType =
     (case file of
        None \<Rightarrow> Inr st
      | Some f \<Rightarrow> updateStateWithNewImage innerWidth st f imageType
                    (js ''Uploaded '' @ imageTypeName imageType @ js '' image''))"

definition handleSceneUrlUpload :: "int \<Rightarrow> App \<Rightarrow> File \<Rightarrow> thrown + App" where
  "handleSceneUrlUpload innerWidth st file =
     updateStateWithNewImage innerWidth st file Scene (js ''Imported scene from URL'')"

definition handleProductUrlUpload :: "int \<Rightarrow> App \<Rightarrow> File \<Rightarrow> thrown + App" where
  "handleProductUrlUpload innerWidth st file =
     updateStateWithNewImage innerWidth st file Product (js ''Imported product from URL'')"

definition handleImageCapture :: "int \<Rightarrow> App \<Rightarrow> File \<Rightarrow> thrown + App" where
  "handleImageCapture innerWidth st file =
     (case cameraFor st of
        None \<Rightarrow> Inr st
      | Some t \<Rightarrow>
          (case updateStateWithNewImage innerWidth st file t
                  (js ''Captured '' @ imageTypeName t @ js '' image from camera'') of
             Inl e \<Rightarrow> Inl e
           | Inr st1 \<Rightarrow> Inr (st1\<lparr>cameraFor := None\<rparr>)))"

definition handleOpenCamera :: "App \<Rightarrow> imageType \<Rightarrow> App" where
  "handleOpenCamera st imageType = st\<lparr>cameraFor := Some imageType\<rparr>"

definition handleUndo :: "App \<Rightarrow> App" where
  "handleUndo st =
     (if currentHistoryIndex st > 0
      then st\<lparr>currentHistoryIndex := currentHistoryIndex st - 1\<rparr> else st)"

definition handleRedo :: "App \<Rightarrow> App" where
  "handleRedo st =
     (if currentHistoryIndex st < int (length (history st)) - 1
      then st\<lparr>currentHistoryIndex := currentHistoryIndex st - 1\<rparr> else st)"

definition handleStartOver :: "int \<Rightarrow> App \<Rightarrow> App" where
  "handleStartOver innerWidth st =
     (let st1 = st\<lparr>history := [emptyHistoryState], currentHistoryIndex := 0, promptInput := [],
                   error := None, isLoading := False\<rparr>
      in if innerWidth < 768 then st1\<lparr>mobileOnboardingStep := StepProduct\<rparr> else st1)"

definition handleNavClick :: "App \<Rightarrow> panel option \<Rightarrow> App" where
  "handleNavClick st p =
     (let st1 = (if p = Some Tools then st\<lparr>highlightTools := False\<rparr> else st)
      in if p = mobilePanel st then st1\<lparr>mobilePanel := None\<rparr> else st1\<lparr>mobilePanel := p\<rparr>)"

section \<open>services/geminiService.ts: the generation client\<close>

text \<open>
  The SDK's \<^verbatim>\<open>Part\<close> (fields \<^verbatim>\<open>inlineData\<close> and \<^verbatim>\<open>text\<close>, both optional), its inline
  \<^verbatim>\<open>Blob\<close> (fields \<^verbatim>\<open>data\<close> and \<^verbatim>\<open>mimeType\<close>, both optional) and the response, of which
  the code reads \<^verbatim>\<open>candidates[0].content.parts\<close> and the getter \<^verbatim>\<open>text\<close>.
\<close>

record InlineData =
  data :: "jsstring option"
  mimeType :: "jsstring option"

record Part =
  inlineData :: "InlineData option"
  partText :: "jsstring option"

record Content =
  parts :: "Part list option"

record Candidate =
  content :: "Content option"

record GenerateContentResponse =
  candidates :: "Candidate list option"
  responseText :: "jsstring option"

text \<open>
  What the code takes from its surroundings: \<^verbatim>\<open>process.env.API_KEY\<close>, the provider call
  \<^verbatim>\<open>ai.models.generateContent\<close> (it returns a response or throws), the \<^verbatim>\<open>FileReader\<close>
  (\<open>None\<close> when \<^verbatim>\<open>onerror\<close> fires), \<^verbatim>\<open>window.innerWidth\<close> and the engine's TypeError text.
\<close>

record World =
  API_KEY :: "jsstring option"
  generateContent :: "Part list \<Rightarrow> thrown + GenerateContentResponse"
  readAsDataURL :: "File \<Rightarrow> jsstring option"
  windowInnerWidth :: int
  typeErrorMessage :: jsstring

text \<open>\<^verbatim>\<open>resolve((reader.result as string).split(',')[1])\<close>, or the rejection of \<^verbatim>\<open>reader.onerror\<close>.\<close>

definition fileToBase64 :: "World \<Rightarrow> File \<Rightarrow> thrown + jsstring option" where
  "fileToBase64 world file =
     (case readAsDataURL world file of
        None \<Rightarrow> Inl NonError
      | Some result \<Rightarrow> Inr (at (split 0x2C result) 1))"

definition fileToGenerativePart :: "World \<Rightarrow> File \<Rightarrow> thrown + Part" where
  "fileToGenerativePart world file =
     (case fileToBase64 world file of
        Inl e \<Rightarrow> Inl e
      | Inr base64 \<Rightarrow>
          Inr \<lparr>inlineData = Some \<lparr>data = base64, mimeType = Some (fileType file)\<rparr>,
               partText = None\<rparr>)"

text \<open>
  The pattern \<^verbatim>\<open>/^data:(.*);base64,(.*)$/\<close>: \<^verbatim>\<open>.\<close> matches every code unit but a line
  terminator, and the first group is greedy, so that it ends at the last \<^verbatim>\<open>;base64,\<close>.
\<close>

definition isLineTerminator :: "16 word \<Rightarrow> bool" where
  "isLineTerminator c \<longleftrightarrow> c = 0x0A \<or> c = 0x0D \<or> c = 0x2028 \<or> c = 0x2029"

primrec lastMatchUpTo :: "jsstring \<Rightarrow> jsstring \<Rightarrow> nat \<Rightarrow> nat option" where
  "lastMatchUpTo p s 0 = (if startsWith s p then Some 0 else None)"
| "lastMatchUpTo p s (Suc k) =
     (if startsWith (drop (Suc k) s) p then Some (Suc k) else lastMatchUpTo p s k)"

definition lastOccurrence :: "jsstring \<Rightarrow> jsstring \<Rightarrow> nat option" where
  "lastOccurrence s p = lastMatchUpTo p s (length s)"

definition dataUrlToGenerativePart :: "jsstring \<Rightarrow> thrown + Part" where
  "dataUrlToGenerativePart dataUrl =
     (let rest = drop 5 dataUrl
      in if startsWith dataUrl (js ''data:'') \<and> \<not> list_ex isLineTerminator rest
         then (case lastOccurrence rest (js '';base64,'') of
                 None \<Rightarrow> Inl (Error (js ''Invalid data URL format''))
               | Some k \<Rightarrow>
                   Inr \<lparr>inlineData = Some \<lparr>data = Some (drop (k + 8) rest),
                                            mimeType = Some (take k rest)\<rparr>,
                        partText = None\<rparr>)
         else Inl (Error (js ''Invalid data URL format'')))"

definition instructionText :: "jsstring \<Rightarrow> jsstring" where
  \<open>instructionText userPrompt =
     js ''Your task is to act as a photorealistic image editor. You will be given a base image and a text instruction. You might also be given a second 'product' image.\<newline>'' @
     js ''\<newline>'' @
     js ''**Instructions:**\<newline>'' @
     js ''1.  **Analyze the Base Image:** The first image is your canvas. If it already contains a placed product from a previous step, you will be editing this composite image.\<newline>'' @
     js ''2.  **Handle the Product Image (if provided):** If a second image is given, your primary task is to isolate the main product from it (e.g., a shirt, a sofa). You must **completely disregard the background or any models** in the product image. Then, seamlessly place this isolated product into the base image according to the user's prompt.\<newline>'' @
     js ''3.  **Execute the User's Prompt:** Apply the user's text instruction to the image. This instruction is the most important part. It could be about initial placement, moving an object, changing colors, applying a stylistic look (e.g., 'Golden Hour'), or any other edit. The prompt is: "'' @
     userPrompt @
     js ''".\<newline>'' @
     js ''4.  **Maintain Realism:** All edits must result in a photorealistic image. Ensure lighting, shadows, perspective, and scale are believable and consistent. The final product should look like a real photograph.\<newline>'' @
     js ''\<newline>'' @
     js ''Output only the final, edited image.''\<close>

text \<open>\<^verbatim>\<open>const parts = [scenePart]; if (productPart) parts.push(productPart); parts.push({ text })\<close>\<close>

definition requestParts :: "Part \<Rightarrow> Part option \<Rightarrow> jsstring \<Rightarrow> Part list" where
  "requestParts scenePart productPart userPrompt =
     [scenePart] @ (case productPart of None \<Rightarrow> [] | Some p \<Rightarrow> [p]) @
     [\<lparr>inlineData = None, partText = Some (instructionText userPrompt)\<rparr>]"

text \<open>\<^verbatim>\<open>response.candidates[0].content.parts\<close>: a TypeError where a link of the chain is missing.\<close>

definition responseParts :: "GenerateContentResponse \<Rightarrow> thrown + Part list" where
  "responseParts response =
     (case candidates response of
        None \<Rightarrow> Inl TypeError
      | Some cs \<Rightarrow>
          (case at cs 0 of
             None \<Rightarrow> Inl TypeError
           | Some c \<Rightarrow>
               (case content c of
                  None \<Rightarrow> Inl TypeError
                | Some ct \<Rightarrow> (case parts ct of None \<Rightarrow> Inl TypeError | Some ps \<Rightarrow> Inr ps))))"

text \<open>A template literal prints an undefined value as \<^verbatim>\<open>undefined\<close>.\<close>

definition interpolate :: "jsstring option \<Rightarrow> jsstring" where
  "interpolate v = (case v of None \<Rightarrow> js ''undefined'' | Some s \<Rightarrow> s)"

text \<open>
  The \<^verbatim>\<open>for\<close> loop over the parts: \<open>Inr (Some url)\<close> is its \<^verbatim>\<open>return\<close>, \<open>Inr None\<close> its
  normal end, \<open>Inl TypeError\<close> the call of \<^verbatim>\<open>startsWith\<close> on an undefined \<^verbatim>\<open>mimeType\<close>.
\<close>

fun firstImage :: "Part list \<Rightarrow> thrown + jsstring option" where
  "firstImage [] = Inr None"
| "firstImage (part # ps) =
     (case inlineData part of
        None \<Rightarrow> firstImage ps
      | Some b \<Rightarrow>
          (case mimeType b of
             None \<Rightarrow> Inl TypeError
           | Some m \<Rightarrow>
               if startsWith m (js ''image/'')
               then Inr (Some (js ''data:'' @ m @ js '';base64,'' @ interpolate (data b)))
               else firstImage ps))"

definition decodeResponse :: "GenerateContentResponse \<Rightarrow> thrown + jsstring" where
  \<open>decodeResponse response =
     (case responseParts response of
        Inl e \<Rightarrow> Inl e
      | Inr ps \<Rightarrow>
          (case firstImage ps of
             Inl e \<Rightarrow> Inl e
           | Inr (Some url) \<Rightarrow> Inr url
           | Inr None \<Rightarrow>
               (let textResponse = map_option trim (responseText response)
                in if truthy textResponse
                   then Inl (Error (js ''Model returned a text response instead of an image: "'' @
                                    the textResponse @
                                    js ''" This might be due to a safety policy or an inability to fulfill the request.''))
                   else Inl (Error (js ''No image was generated in the response. The model may have refused the request.'')))))\<close>

text \<open>The \<^verbatim>\<open>catch\<close> block of \<open>generateProductPlacement\<close>.\<close>

definition rethrow :: "World \<Rightarrow> thrown \<Rightarrow> thrown" where
  "rethrow world e =
     (if instanceofError e
      then Error (js ''Failed to generate image: '' @ interpolate (message (typeErrorMessage world) e))
      else Error (js ''An unknown error occurred during image generation.''))"

text \<open>
  The result is the returned data URL or the thrown value, together with the requests
  sent to the provider, in order.
\<close>

definition generateProductPlacement ::
  "World \<Rightarrow> Part \<Rightarrow> Part option \<Rightarrow> jsstring \<Rightarrow> (thrown + jsstring) \<times> Part list list" where
  "generateProductPlacement world scenePart productPart userPrompt =
     (if \<not> truthy (API_KEY world)
      then (Inl (rethrow world (Error (js ''API_KEY environment variable is not set.''))), [])
      else let ps = requestParts scenePart productPart userPrompt
           in (case generateContent world ps of
                 Inl e \<Rightarrow> (Inl (rethrow world e), [ps])
               | Inr response \<Rightarrow>
                   (case decodeResponse response of
                      Inl e \<Rightarrow> (Inl (rethrow world e), [ps])
                    | Inr url \<Rightarrow> (Inr url, [ps]))))"

section \<open>App.tsx: generation\<close>

text \<open>
  Lines 115 to 132 of \<open>handleGenerate\<close>: the base part and the product part of the call.
\<close>

definition baseParts :: "World \<Rightarrow> HistoryState \<Rightarrow> thrown + Part \<times> Part option" where
  "baseParts world cur =
     (if truthy (imageUrl cur)
      then (case dataUrlToGenerativePart (the (imageUrl cur)) of
              Inl e \<Rightarrow> Inl e
            | Inr scenePart \<Rightarrow> Inr (scenePart, None))
      else (case sceneImage cur of
              Some f \<Rightarrow>
                (case fileToGenerativePart world f of
                   Inl e \<Rightarrow> Inl e
                 | Inr scenePart \<Rightarrow>
                     (case productImage cur of
                        None \<Rightarrow> Inr (scenePart, None)
                      | Some g \<Rightarrow>
                          (case fileToGenerativePart world g of
                             Inl e \<Rightarrow> Inl e
                           | Inr productPart \<Rightarrow> Inr (scenePart, Some productPart))))
            | None \<Rightarrow> Inl (Error (js ''No base image available for generation.''))))"

definition finalPrompt :: "jsstring \<Rightarrow> jsstring" where
  "finalPrompt actionPrompt =
     (if trim actionPrompt = [] then js ''Place the product naturally in the scene.''
      else actionPrompt)"

text \<open>
  The outcome of one call of \<open>handleGenerate\<close>: the cells afterwards, the calls of
  \<open>generateProductPlacement\<close> it made (base part, product part, prompt) and the requests
  that reached the provider.
\<close>

record GenerateOutcome =
  app :: App
  clientCalls :: "(Part \<times> Part option \<times> jsstring) list"
  requests :: "Part list list"

text \<open>The \<^verbatim>\<open>catch\<close> and \<^verbatim>\<open>finally\<close> blocks of \<open>handleGenerate\<close>, on the cells \<open>st1\<close>.\<close>

definition generateFailed :: "World \<Rightarrow> App \<Rightarrow> thrown \<Rightarrow> App" where
  "generateFailed world st1 err =
     st1\<lparr>error := Some (messageOr (typeErrorMessage world) err (js ''An unexpected error occurred.'')),
         isLoading := False\<rparr>"

text \<open>
  \<open>handleGenerate\<close> without its optional \<^verbatim>\<open>onSuccess\<close>, which no call in the repository
  passes. With \<^verbatim>\<open>currentState\<close> undefined the first line throws outside the \<^verbatim>\<open>try\<close>.
\<close>

definition handleGenerate :: "World \<Rightarrow> App \<Rightarrow> jsstring \<Rightarrow> thrown + GenerateOutcome" where
  "handleGenerate world st actionPrompt =
     (case currentState st of
        None \<Rightarrow> Inl TypeError
      | Some cur \<Rightarrow>
          if \<not> (truthy (imageUrl cur) \<or> sceneImage cur \<noteq> None)
          then Inr \<lparr>app = st\<lparr>error := Some (js ''Please upload a scene photo first.'')\<rparr>,
                    clientCalls = [], requests = []\<rparr>
          else
            let st1 = st\<lparr>isLoading := True, error := None\<rparr>;
                isFirstGeneration = \<not> list_ex (\<lambda>s. truthy (imageUrl s)) (history st);
                final = finalPrompt actionPrompt
            in (case baseParts world cur of
                  Inl e \<Rightarrow> Inr \<lparr>app = generateFailed world st1 e, clientCalls = [], requests = []\<rparr>
                | Inr (scenePart, productPart) \<Rightarrow>
                    (case generateProductPlacement world scenePart productPart final of
                       (Inl e, reqs) \<Rightarrow>
                         Inr \<lparr>app = generateFailed world st1 e,
                              clientCalls = [(scenePart, productPart, final)], requests = reqs\<rparr>
                     | (Inr resultUrl, reqs) \<Rightarrow>
                         let st2 = updateStateAndHistory st1
                                     \<lparr>imageUrl_p = Some (Some resultUrl), prompt_p = None,
                                      sceneImage_p = None, productImage_p = None\<rparr> final;
                             st3 = st2\<lparr>promptInput := []\<rparr>;
                             st4 = (if windowInnerWidth world < 768
                                    then st3\<lparr>mobileOnboardingStep := StepWorkspace\<rparr> else st3);
                             st5 = (if isFirstGeneration then st4\<lparr>highlightTools := True\<rparr> else st4)
                         in Inr \<lparr>app = st5\<lparr>isLoading := False\<rparr>,
                                 clientCalls = [(scenePart, productPart, final)],
                                 requests = reqs\<rparr>)))"

text \<open>The cells once a call of \<open>handleGenerate\<close> on the cells \<open>st\<close> has settled.\<close>

definition generated :: "App \<Rightarrow> thrown + GenerateOutcome \<Rightarrow> App" where
  "generated st r = (case r of Inl e \<Rightarrow> st | Inr out \<Rightarrow> app out)"

text \<open>
  The two handlers that set a cell and then call \<open>handleGenerate\<close>, which works on the
  cells of the render and leaves the cell just set alone unless it succeeds.
\<close>

definition handleInitiateGeneration :: "World \<Rightarrow> App \<Rightarrow> App" where
  "handleInitiateGeneration world st =
     (let st0 = (if mobilePanel st \<noteq> None then st\<lparr>mobilePanel := None\<rparr> else st)
      in generated st0 (handleGenerate world st0 (promptInput st)))"

definition handleApplyLook :: "World \<Rightarrow> App \<Rightarrow> jsstring \<Rightarrow> App" where
  "handleApplyLook world st lookName =
     (let lookPrompt = js ''Apply a '' @ [0x27] @ lookName @ [0x27] @ js '' look to the image.'';
          st0 = st\<lparr>promptInput := lookPrompt\<rparr>
      in generated st0 (handleGenerate world st0 lookPrompt))"

section \<open>The events of the workspace\<close>

datatype event =
    EvImageUpload "File option" imageType
  | EvSceneUrlUpload File
  | EvProductUrlUpload File
  | EvImageCapture File
  | EvOpenCamera imageType
  | EvCloseCamera
  | EvInitiateGeneration
  | EvGenerate
  | EvApplyLook jsstring
  | EvUndo
  | EvRedo
  | EvStartOver
  | EvNavClick "panel option"
  | EvSetPrompt jsstring
  | EvClosePanel

fun step :: "World \<Rightarrow> App \<Rightarrow> event \<Rightarrow> App" where
  "step world st (EvImageUpload file t) =
     orUnchanged st (handleImageUpload (windowInnerWidth world) st file t)"
| "step world st (EvSceneUrlUpload file) =
     orUnchanged st (handleSceneUrlUpload (windowInnerWidth world) st file)"
| "step world st (EvProductUrlUpload file) =
     orUnchanged st (handleProductUrlUpload (windowInnerWidth world) st file)"
| "step world st (EvImageCapture file) =
     orUnchanged st (handleImageCapture (windowInnerWidth world) st file)"
| "step world st (EvOpenCamera t) = handleOpenCamera st t"
| "step world st EvCloseCamera = st\<lparr>cameraFor := None\<rparr>"
| "step world st EvInitiateGeneration = handleInitiateGeneration world st"
| "step world st EvGenerate = generated st (handleGenerate world st (promptInput st))"
| "step world st (EvApplyLook lookName) = handleApplyLook world st lookName"
| "step world st EvUndo = handleUndo st"
| "step world st EvRedo = handleRedo st"
| "step world st EvStartOver = handleStartOver (windowInnerWidth world) st"
| "step world st (EvNavClick p) = handleNavClick st p"
| "step world st (EvSetPrompt p) = st\<lparr>promptInput := p\<rparr>"
| "step world st EvClosePanel = st\<lparr>mobilePanel := None\<rparr>"

text \<open>
  A run: each event with the surroundings it meets. An event is handled only while the
  component renders, and each handler runs to its end before the next event: in a run no
  generation or import is in flight when an event is handled.
\<close>

fun run :: "App \<Rightarrow> (World \<times> event) list \<Rightarrow> App" where
  "run st [] = st"
| "run st ((world, ev) # evs) = (if renders st then run (step world st ev) evs else st)"

inductive reachable :: "App \<Rightarrow> bool" where
  initial: "reachable (initialApp w)"
| step: "reachable st \<Longrightarrow> renders st \<Longrightarrow> reachable (step world st ev)"

section \<open>components/LeftAside.tsx: import from a URL\<close>

record Blob =
  blobType :: jsstring
  blobBytes :: "8 word list"

text \<open>
  A \<^verbatim>\<open>Response\<close> of \<^verbatim>\<open>fetch\<close>: its status and the outcome of \<^verbatim>\<open>response.blob()\<close>. The flag
  \<^verbatim>\<open>response.ok\<close> is, by the Fetch standard, that the status is in the range 200 to 299.
\<close>

record FetchResponse =
  status :: nat
  blob :: "thrown + Blob"

definition ok :: "FetchResponse \<Rightarrow> bool" where
  "ok response \<longleftrightarrow> 200 \<le> status response \<and> status response \<le> 299"

text \<open>
  The browser: \<^verbatim>\<open>encodeURIComponent\<close> (it throws on a lone surrogate), \<^verbatim>\<open>fetch\<close>, whether
  an \<^verbatim>\<open>Image\<close> element loads the blob (\<^verbatim>\<open>onload\<close>) or not (\<^verbatim>\<open>onerror\<close>), the \<^verbatim>\<open>File\<close>
  constructor and the engine's TypeError text.
\<close>

record Browser =
  encodeURIComponent :: "jsstring \<Rightarrow> thrown + jsstring"
  fetch :: "jsstring \<Rightarrow> thrown + FetchResponse"
  imageLoads :: "Blob \<Rightarrow> bool"
  newFile :: "Blob \<Rightarrow> jsstring \<Rightarrow> jsstring \<Rightarrow> File"
  browserTypeError :: jsstring

text \<open>
  The cells of \<open>ImageUploader\<close> that the import touches; the text field \<^verbatim>\<open>imageUrl\<close> is
  named \<open>urlInput\<close> here.
\<close>

record ImageUploader =
  showUrlInput :: bool
  urlInput :: jsstring
  isFetching :: bool
  fetchError :: "jsstring option"

text \<open>A number in a template literal: a status prints in decimal.\<close>

fun digit :: "nat \<Rightarrow> 16 word" where
  "digit d = 0x30 + of_nat d"

function decimal :: "nat \<Rightarrow> jsstring" where
  "decimal n = (if n < 10 then [digit n] else decimal (n div 10) @ [digit (n mod 10)])"
  by pat_completeness auto
termination
  by (relation "measure id") auto

text \<open>\<^verbatim>\<open>s.lastIndexOf(c)\<close> for a one-character \<open>c\<close> (\<open>-1\<close> when absent) and \<^verbatim>\<open>s.substring(n)\<close>.\<close>

definition lastIndexOf :: "jsstring \<Rightarrow> 16 word \<Rightarrow> int" where
  "lastIndexOf s c =
     (if list_ex (\<lambda>x. x = c) s
      then int (length s) - 1 - int (length (takeWhile (\<lambda>x. x \<noteq> c) (rev s)))
      else - 1)"

definition substring :: "jsstring \<Rightarrow> int \<Rightarrow> jsstring" where
  "substring s n = drop (nat (max n 0)) s"

text \<open>\<^verbatim>\<open>a || b\<close> on strings\<close>

definition orElse :: "jsstring option \<Rightarrow> jsstring \<Rightarrow> jsstring" where
  "orElse a b = (if truthy a then the a else b)"

text \<open>Lines 95 to 98: the name and type of the file made from the blob.\<close>

definition fileFromBlob :: "Browser \<Rightarrow> jsstring \<Rightarrow> Blob \<Rightarrow> File" where
  "fileFromBlob browser url b =
     (let mime = orElse (Some (blobType b)) (js ''image/jpeg'');
          extension = orElse (at (split 0x2F mime) 1) (js ''jpg'');
          name = orElse (at (split 0x3F (substring url (lastIndexOf url 0x2F + 1))) 0)
                   (js ''product-from-url.'' @ extension)
      in newFile browser b name mime)"

text \<open>
  The outcome of one import: the cells of the uploader, the state of the parent that the
  callback \<open>onUrlUpload\<close> works on, the files the callback was called with, and the value
  the handler's promise was rejected with, if it was.
\<close>

record 'p FetchOutcome =
  uploader :: ImageUploader
  parent :: 'p
  uploads :: "File list"
  rejection :: "thrown option"

text \<open>The \<^verbatim>\<open>catch\<close> and \<^verbatim>\<open>finally\<close> blocks.\<close>

definition fetchFailed :: "Browser \<Rightarrow> ImageUploader \<Rightarrow> thrown \<Rightarrow> ImageUploader" where
  "fetchFailed browser u1 e =
     u1\<lparr>fetchError := Some (messageOr (browserTypeError browser) e
                              (js ''An error occurred. Please check the URL and try again.'')),
        isFetching := False\<rparr>"

definition handleFetchFromUrl ::
  "Browser \<Rightarrow> (File \<Rightarrow> 'p \<Rightarrow> thrown + 'p) option \<Rightarrow> ImageUploader \<Rightarrow> 'p \<Rightarrow> 'p FetchOutcome" where
  "handleFetchFromUrl browser onUrlUpload u p =
     (case onUrlUpload of
        None \<Rightarrow> \<lparr>uploader = u, parent = p, uploads = [], rejection = None\<rparr>
      | Some callback \<Rightarrow>
          if urlInput u = [] then \<lparr>uploader = u, parent = p, uploads = [], rejection = None\<rparr>
          else
            let u1 = u\<lparr>isFetching := True, fetchError := None\<rparr>
            in (case encodeURIComponent browser (urlInput u) of
                  Inl e \<Rightarrow> \<lparr>uploader = u1, parent = p, uploads = [], rejection = Some e\<rparr>
                | Inr encoded \<Rightarrow>
                    (case fetch browser (js ''https://api.allorigins.win/raw?url='' @ encoded) of
                       Inl e \<Rightarrow> \<lparr>uploader = fetchFailed browser u1 e, parent = p, uploads = [],
                                 rejection = None\<rparr>
                     | Inr response \<Rightarrow>
                         if \<not> ok response
                         then \<lparr>uploader = fetchFailed browser u1
                                 (Error (js ''Failed to fetch image. Status: '' @
                                         decimal (status response))),
                               parent = p, uploads = [], rejection = None\<rparr>
                         else
                           (case blob response of
                              Inl e \<Rightarrow> \<lparr>uploader = fetchFailed browser u1 e, parent = p,
                                        uploads = [], rejection = None\<rparr>
                            | Inr b \<Rightarrow>
                                if \<not> imageLoads browser b
                                then \<lparr>uploader = fetchFailed browser u1
                                        (Error (js ''The URL did not provide a valid image. Please use a direct link to an image file.'')),
                                      parent = p, uploads = [], rejection = None\<rparr>
                                else
                                  let file = fileFromBlob browser (urlInput u) b
                                  in (case callback file p of
                                        Inl e \<Rightarrow> \<lparr>uploader = fetchFailed browser u1 e, parent = p,
                                                  uploads = [file], rejection = None\<rparr>
                                      | Inr p' \<Rightarrow>
                                          \<lparr>uploader = u1\<lparr>showUrlInput := False, urlInput := [],
                                                          isFetching := False\<rparr>,
                                           parent = p', uploads = [file],
                                           rejection = None\<rparr>)))))"

section \<open>Concrete values\<close>

definition pngA :: File where
  "pngA = \<lparr>fileName = js ''a.png'', fileType = js ''image/png'', fileBytes = [1]\<rparr>"

definition pngB :: File where
  "pngB = \<lparr>fileName = js ''b.png'', fileType = js ''image/png'', fileBytes = [2]\<rparr>"

text \<open>Surroundings without a credential, a provider or readable files, on a wide window.\<close>

definition offlineWorld :: World where
  "offlineWorld =
     \<lparr>API_KEY = None, generateContent = (\<lambda>ps. Inl NonError), readAsDataURL = (\<lambda>f. None),
      windowInnerWidth = 1024, typeErrorMessage = js ''undefined is not an object''\<rparr>"

definition sceneOnly :: HistoryState where
  "sceneOnly = \<lparr>imageUrl = None, prompt = js ''Uploaded scene image'',
                 sceneImage = Some pngA, productImage = None\<rparr>"

definition sceneAndProduct :: HistoryState where
  "sceneAndProduct = \<lparr>imageUrl = None, prompt = js ''Uploaded product image'',
                       sceneImage = Some pngA, productImage = Some pngB\<rparr>"

text \<open>The cells after a scene and then a product were uploaded on a wide window.\<close>

definition twoUploads :: App where
  "twoUploads = (initialApp 1024)\<lparr>history := [sceneOnly, sceneAndProduct],
                                   currentHistoryIndex := 1\<rparr>"

definition resultPatch :: PartialHistoryState where
  "resultPatch = \<lparr>imageUrl_p = Some (Some (js ''data:image/png;base64,AAAA'')), prompt_p = None,
                   sceneImage_p = None, productImage_p = None\<rparr>"

text \<open>Surroundings whose files read as data URLs, without a credential.\<close>

definition noKeyWorld :: World where
  "noKeyWorld =
     offlineWorld\<lparr>readAsDataURL :=
       (\<lambda>f. if f = pngA then Some (js ''data:image/png;base64,AQ=='')
            else Some (js ''data:image/png;base64,Ag==''))\<rparr>"

definition partC :: Part where
  "partC = \<lparr>inlineData = Some \<lparr>data = Some (js ''Qw==''), mimeType = Some (js ''image/png'')\<rparr>,
            partText = None\<rparr>"

definition pngResponse :: GenerateContentResponse where
  "pngResponse = \<lparr>candidates = Some [\<lparr>content = Some \<lparr>parts = Some [partC]\<rparr>\<rparr>],
                   responseText = None\<rparr>"

text \<open>Surroundings with a credential and a provider that answers with one image.\<close>

definition onlineWorld :: World where
  "onlineWorld =
     noKeyWorld\<lparr>API_KEY := Some (js ''key''), generateContent := (\<lambda>ps. Inr pngResponse)\<rparr>"

definition partA :: Part where
  "partA = \<lparr>inlineData = Some \<lparr>data = Some (js ''AQ==''), mimeType = Some (js ''image/png'')\<rparr>,
            partText = None\<rparr>"

definition partB :: Part where
  "partB = \<lparr>inlineData = Some \<lparr>data = Some (js ''Ag==''), mimeType = Some (js ''image/png'')\<rparr>,
            partText = None\<rparr>"


section \<open>The histories the workspace holds\<close>





section \<open>The words of the specification\<close>

text \<open>
  The words of the specification about a response part. An image part carries an inline
  payload whose MIME type starts with \<^verbatim>\<open>image/\<close>; the scan passes over a part that has no
  inline payload or one whose MIME type does not start so.
\<close>

definition isImagePart :: "Part \<Rightarrow> bool" where
  "isImagePart part =
     (case inlineData part of
        None \<Rightarrow> False
      | Some b \<Rightarrow> (case mimeType b of None \<Rightarrow> False | Some m \<Rightarrow> startsWith m (js ''image/'')))"

definition passedOver :: "Part \<Rightarrow> bool" where
  "passedOver part =
     (case inlineData part of
        None \<Rightarrow> True
      | Some b \<Rightarrow> (case mimeType b of None \<Rightarrow> False | Some m \<Rightarrow> \<not> startsWith m (js ''image/'')))"


text \<open>The data URI of an image part.\<close>

definition dataUri :: "Part \<Rightarrow> jsstring" where
  "dataUri part =
     (case inlineData part of
        None \<Rightarrow> []
      | Some b \<Rightarrow> js ''data:'' @ interpolate (mimeType b) @ js '';base64,'' @ interpolate (data b))"

text \<open>
  The errors the specification names, as the \<^verbatim>\<open>Error\<close> values that leave the client (its
  \<^verbatim>\<open>catch\<close> block prefixes every message).
\<close>

definition ConfigurationError :: thrown where
  "ConfigurationError =
     Error (js ''Failed to generate image: API_KEY environment variable is not set.'')"

definition ModelRefusedError :: "jsstring \<Rightarrow> thrown" where
  \<open>ModelRefusedError t =
     Error (js ''Failed to generate image: Model returned a text response instead of an image: "'' @
            t @
            js ''" This might be due to a safety policy or an inability to fulfill the request.'')\<close>

definition NoOutputError :: thrown where
  "NoOutputError =
     Error (js ''Failed to generate image: No image was generated in the response. The model may have refused the request.'')"

text \<open>The errors of an import that the specification names, as the messages shown.\<close>

definition InvalidImageError :: jsstring where
  "InvalidImageError =
     js ''The URL did not provide a valid image. Please use a direct link to an image file.''"

definition FetchError :: "nat \<Rightarrow> jsstring" where
  "FetchError code = js ''Failed to fetch image. Status: '' @ decimal code"

section \<open>Concrete providers and browsers\<close>

text \<open>A provider whose response holds one text part of a single space.\<close>

definition blankTextResponse :: GenerateContentResponse where
  "blankTextResponse =
     \<lparr>candidates = Some [\<lparr>content = Some \<lparr>parts = Some [\<lparr>inlineData = None,
                                                            partText = Some (js '' '')\<rparr>]\<rparr>\<rparr>],
      responseText = Some (js '' '')\<rparr>"

definition blankTextWorld :: World where
  "blankTextWorld = onlineWorld\<lparr>generateContent := (\<lambda>ps. Inr blankTextResponse)\<rparr>"

text \<open>A provider whose response has no candidate, as for a blocked prompt.\<close>

definition blockedResponse :: GenerateContentResponse where
  "blockedResponse = \<lparr>candidates = None, responseText = None\<rparr>"

definition blockedWorld :: World where
  "blockedWorld = onlineWorld\<lparr>generateContent := (\<lambda>ps. Inr blockedResponse)\<rparr>"

text \<open>A provider whose response has a candidate without any part.\<close>

definition emptyResponse :: GenerateContentResponse where
  "emptyResponse =
     \<lparr>candidates = Some [\<lparr>content = Some \<lparr>parts = Some []\<rparr>\<rparr>], responseText = None\<rparr>"

definition emptyWorld :: World where
  "emptyWorld = onlineWorld\<lparr>generateContent := (\<lambda>ps. Inr emptyResponse)\<rparr>"




text \<open>A provider that answers with a refusal in words.\<close>

definition refusalResponse :: GenerateContentResponse where
  "refusalResponse =
     \<lparr>candidates = Some [\<lparr>content = Some \<lparr>parts = Some [\<lparr>inlineData = None,
                                                            partText = Some (js '' no '')\<rparr>]\<rparr>\<rparr>],
      responseText = Some (js '' no '')\<rparr>"

definition refusalWorld :: World where
  "refusalWorld = onlineWorld\<lparr>generateContent := (\<lambda>ps. Inr refusalResponse)\<rparr>"

text \<open>A browser that is served an HTML page, and one that is served a 404.\<close>

definition htmlBrowser :: Browser where
  "htmlBrowser =
     \<lparr>encodeURIComponent = (\<lambda>s. Inr (js ''https%3A%2F%2Fexample.com%2Fpage'')),
      fetch = (\<lambda>url. Inr \<lparr>status = 200,
                            blob = Inr \<lparr>blobType = js ''text/html'', blobBytes = [60]\<rparr>\<rparr>),
      imageLoads = (\<lambda>b. False),
      newFile = (\<lambda>b name type. \<lparr>fileName = name, fileType = type, fileBytes = blobBytes b\<rparr>),
      browserTypeError = js ''undefined is not an object''\<rparr>"

definition notFoundBrowser :: Browser where
  "notFoundBrowser =
     htmlBrowser\<lparr>fetch := (\<lambda>url. Inr \<lparr>status = 404, blob = Inl NonError\<rparr>)\<rparr>"

definition pastedUrl :: ImageUploader where
  "pastedUrl = \<lparr>showUrlInput = True, urlInput = js ''https://example.com/page'',
                isFetching = False, fetchError = None\<rparr>"

section \<open>Arrays\<close>

lemma slice0_in_bounds:
  "0 \<le> i \<Longrightarrow> i < int (length xs) \<Longrightarrow> slice0 xs (i + 1) = take (nat (i + 1)) xs"
  by (simp add: slice0_def Let_def min_def)

lemma slice0_prefix:
  "0 \<le> i \<Longrightarrow> i < int (length xs) \<Longrightarrow>
   slice0 (take (nat (i + 1)) xs @ ys) (i + 1) = take (nat (i + 1)) xs"
  by (simp add: slice0_def Let_def min_def)

lemma at_Some_iff: "at xs i = Some x \<longleftrightarrow> 0 \<le> i \<and> i < int (length xs) \<and> xs ! nat i = x"
  by (auto simp: at_def)

lemma at_prefix:
  "0 \<le> i \<Longrightarrow> i < int (length xs) \<Longrightarrow> at (take (nat (i + 1)) xs @ ys) i = at xs i"
  by (simp add: at_def nth_append)

lemma slice0_from_minus_one:
  "- 1 \<le> i \<Longrightarrow> i < int (length xs) \<Longrightarrow> slice0 xs (i + 1) = take (nat (i + 1)) xs"
  by (simp add: slice0_def Let_def min_def)

lemma slice0_prefix_from_minus_one:
  "- 1 \<le> i \<Longrightarrow> i < int (length xs) \<Longrightarrow>
   slice0 (take (nat (i + 1)) xs @ ys) (i + 1) = take (nat (i + 1)) xs"
  by (simp add: slice0_def Let_def min_def)

lemma at_prefix_from_minus_one:
  "- 1 \<le> i \<Longrightarrow> i < int (length xs) \<Longrightarrow> at (take (nat (i + 1)) xs @ ys) i = at xs i"
  by (simp add: at_def nth_append)

section \<open>The edit history\<close>


lemma handleUndo_index:
  "currentHistoryIndex (handleUndo st) =
     (if 0 < currentHistoryIndex st then currentHistoryIndex st - 1 else currentHistoryIndex st)"
  by (simp add: handleUndo_def)

lemma handleRedo_index:
  "currentHistoryIndex (handleRedo st) =
     (if currentHistoryIndex st < int (length (history st)) - 1
      then currentHistoryIndex st - 1 else currentHistoryIndex st)"
  by (simp add: handleRedo_def)

text \<open>
  C1. The claim is that the current index stays within \<open>[0, length - 1]\<close> along every
  sequence of appends, undos and redos from the initial history. The run below uploads a
  scene, uploads a product, undoes once and redoes once: \<open>handleRedo\<close> subtracts one where
  it should add one, and the index ends at \<open>-1\<close> with a history of two snapshots.
\<close>

theorem C1_redo_leaves_bounds:
  "currentHistoryIndex
     (run (initialApp 1024)
        [(offlineWorld, EvImageUpload (Some pngA) Scene),
         (offlineWorld, EvImageUpload (Some pngB) Product),
         (offlineWorld, EvUndo),
         (offlineWorld, EvRedo)]) = - 1
   \<and> length (history
     (run (initialApp 1024)
        [(offlineWorld, EvImageUpload (Some pngA) Scene),
         (offlineWorld, EvImageUpload (Some pngB) Product),
         (offlineWorld, EvUndo),
         (offlineWorld, EvRedo)])) = 2"
  by (simp add: sceneOnly_def sceneAndProduct_def initialApp_def renders_def
      currentState_def at_def handleImageUpload_def updateStateWithNewImage_def orUnchanged_def
      emptyHistoryState_def offlineWorld_def slice0_def imageTypeName_def js_def Let_def
      handleUndo_def handleRedo_def)

text \<open>
  C2. The claim is that redo moves the index forward by one below the last position and
  is a no-op at the last position, and that undo moves it back by one and is a no-op at
  0. With two snapshots, undo takes the index from 1 to 0 as claimed, and redo then takes
  it from 0 to \<open>-1\<close>, not to 1.
\<close>

theorem C2_redo_moves_back:
  "currentHistoryIndex (handleUndo twoUploads) = 0
   \<and> length (history (handleUndo twoUploads)) = 2
   \<and> currentHistoryIndex (handleRedo (handleUndo twoUploads)) = - 1"
  by (simp add: twoUploads_def handleUndo_def handleRedo_def)

text \<open>
  C3. With the current index \<open>i\<close> a position of the history (or \<open>-1\<close>, the one other value
  it takes in a run), \<open>updateStateAndHistory\<close> keeps the snapshots at positions up to \<open>i\<close>,
  pushes the new snapshot and makes \<open>i + 1\<close>, the new last position, current. The
  snapshots that were after \<open>i\<close> are gone: redo is a no-op on the result, and the result
  is the same whatever stood after position \<open>i\<close>.
\<close>

theorem C3_append_truncates_then_pushes:
  assumes "- 1 \<le> currentHistoryIndex st"
    and "currentHistoryIndex st < int (length (history st))"
  shows "history (updateStateAndHistory st newState action) =
           take (nat (currentHistoryIndex st + 1)) (history st) @
           [spread (currentState st) newState action]
       \<and> currentHistoryIndex (updateStateAndHistory st newState action) =
           currentHistoryIndex st + 1
       \<and> int (length (history (updateStateAndHistory st newState action))) =
           currentHistoryIndex st + 2
       \<and> currentState (updateStateAndHistory st newState action) =
           Some (spread (currentState st) newState action)
       \<and> handleRedo (updateStateAndHistory st newState action) =
           updateStateAndHistory st newState action
       \<and> updateStateAndHistory
           (st\<lparr>history := take (nat (currentHistoryIndex st + 1)) (history st) @ others\<rparr>)
           newState action
         = updateStateAndHistory st newState action"
proof -
  let ?i = "currentHistoryIndex st"
  let ?st' = "updateStateAndHistory st newState action"
  let ?new = "spread (currentState st) newState action"
  have sl: "slice0 (history st) (?i + 1) = take (nat (?i + 1)) (history st)"
    using assms by (rule slice0_from_minus_one)
  have len: "int (length (take (nat (?i + 1)) (history st))) = ?i + 1"
    using assms by simp
  have h: "history ?st' = take (nat (?i + 1)) (history st) @ [?new]"
    unfolding updateStateAndHistory_def Let_def sl by simp
  have i: "currentHistoryIndex ?st' = ?i + 1"
    unfolding updateStateAndHistory_def Let_def sl using len by simp
  have l: "int (length (history ?st')) = ?i + 2"
    unfolding h using len by simp
  have c: "currentState ?st' = Some ?new"
    unfolding currentState_def h i using len assms(1) by (simp add: at_def nth_append)
  have r: "handleRedo ?st' = ?st'"
    using l i by (simp add: handleRedo_def)
  let ?alt = "st\<lparr>history := take (nat (?i + 1)) (history st) @ others\<rparr>"
  have cur: "currentState ?alt = currentState st"
    unfolding currentState_def using at_prefix_from_minus_one [OF assms] by simp
  have sl': "slice0 (history ?alt) (currentHistoryIndex ?alt + 1) =
             take (nat (?i + 1)) (history st)"
    using slice0_prefix_from_minus_one [OF assms] by simp
  have u: "updateStateAndHistory ?alt newState action = ?st'"
    unfolding updateStateAndHistory_def Let_def sl sl' cur by simp
  from h i l c r u show ?thesis by blast
qed

theorem C3_append_after_undo_witness:
  "- 1 \<le> currentHistoryIndex (handleUndo twoUploads)
   \<and> currentHistoryIndex (handleUndo twoUploads) < int (length (history (handleUndo twoUploads)))
   \<and> history (updateStateAndHistory (handleUndo twoUploads) resultPatch (js ''left'')) =
       [sceneOnly, spread (Some sceneOnly) resultPatch (js ''left'')]
   \<and> currentHistoryIndex (updateStateAndHistory (handleUndo twoUploads) resultPatch (js ''left'')) = 1"
proof -
  have a: "- 1 \<le> currentHistoryIndex (handleUndo twoUploads)"
    by (simp add: twoUploads_def handleUndo_def)
  have b: "currentHistoryIndex (handleUndo twoUploads)
           < int (length (history (handleUndo twoUploads)))"
    by (simp add: twoUploads_def handleUndo_def)
  show ?thesis
    using a b C3_append_truncates_then_pushes [OF a b, of resultPatch "js ''left''" "[]"]
    by (simp add: twoUploads_def handleUndo_def currentState_def at_def)
qed

text \<open>
  C8. Every upload goes through \<open>updateStateWithNewImage\<close>. When the current snapshot has
  neither a scene nor a product image, the history becomes the one new snapshot and the
  index 0; otherwise the snapshots after the current index are dropped, the new snapshot
  is pushed and becomes current. The file picker, the two URL imports and the camera all
  call this function.
\<close>

theorem C8_upload_replaces_or_appends:
  assumes "currentState st = Some cur"
  shows "\<exists>st'. updateStateWithNewImage w st file t action = Inr st'
          \<and> history st' =
               (if sceneImage cur = None \<and> productImage cur = None then []
                else take (nat (currentHistoryIndex st + 1)) (history st)) @
               [cur\<lparr>sceneImage := (if t = Scene then Some file else sceneImage cur),
                    productImage := (if t = Product then Some file else productImage cur),
                    prompt := action\<rparr>]
          \<and> currentHistoryIndex st' =
               (if sceneImage cur = None \<and> productImage cur = None then 0
                else currentHistoryIndex st + 1)
          \<and> handleImageUpload w st (Some file) t =
               updateStateWithNewImage w st file t
                 (js ''Uploaded '' @ imageTypeName t @ js '' image'')
          \<and> handleSceneUrlUpload w st file =
               updateStateWithNewImage w st file Scene (js ''Imported scene from URL'')
          \<and> handleProductUrlUpload w st file =
               updateStateWithNewImage w st file Product (js ''Imported product from URL'')
          \<and> (cameraFor st = Some t \<longrightarrow>
               handleImageCapture w st file =
                 map_sum id (\<lambda>s. s\<lparr>cameraFor := None\<rparr>)
                   (updateStateWithNewImage w st file t
                      (js ''Captured '' @ imageTypeName t @ js '' image from camera'')))"
proof -
  let ?i = "currentHistoryIndex st"
  from assms have b: "0 \<le> ?i" "?i < int (length (history st))"
    by (simp_all add: currentState_def at_Some_iff)
  have sl: "slice0 (history st) (?i + 1) = take (nat (?i + 1)) (history st)"
    using b by (rule slice0_in_bounds)
  have len: "int (length (take (nat (?i + 1)) (history st))) = ?i + 1"
    using b by simp
  show ?thesis
    using assms len
    by (simp add: updateStateWithNewImage_def Let_def sl handleImageUpload_def
        handleSceneUrlUpload_def handleProductUrlUpload_def handleImageCapture_def)
qed

theorem C8_first_and_second_upload_witness:
  "currentState (initialApp 1024) = Some emptyHistoryState
   \<and> (\<exists>st'. updateStateWithNewImage 1024 (initialApp 1024) pngA Scene
               (js ''Uploaded scene image'') = Inr st'
          \<and> history st' = [sceneOnly] \<and> currentHistoryIndex st' = 0)
   \<and> currentState twoUploads = Some sceneAndProduct
   \<and> (\<exists>st'. updateStateWithNewImage 1024 twoUploads pngB Scene
               (js ''Uploaded scene image'') = Inr st'
          \<and> history st' = [sceneOnly, sceneAndProduct,
                            sceneAndProduct\<lparr>sceneImage := Some pngB,
                                            prompt := js ''Uploaded scene image''\<rparr>]
          \<and> currentHistoryIndex st' = 2)"
proof -
  have a: "currentState (initialApp 1024) = Some emptyHistoryState"
    by (simp add: initialApp_def currentState_def at_def)
  have b: "currentState twoUploads = Some sceneAndProduct"
    by (simp add: twoUploads_def currentState_def at_def)
  from C8_upload_replaces_or_appends [OF a, of 1024 pngA Scene "js ''Uploaded scene image''"]
  obtain s1 where s1: "updateStateWithNewImage 1024 (initialApp 1024) pngA Scene
               (js ''Uploaded scene image'') = Inr s1"
     "history s1 = (if sceneImage emptyHistoryState = None \<and> productImage emptyHistoryState = None then []
                else take (nat (currentHistoryIndex (initialApp 1024) + 1)) (history (initialApp 1024))) @
               [emptyHistoryState\<lparr>sceneImage := (if Scene = Scene then Some pngA else sceneImage emptyHistoryState),
                    productImage := (if Scene = Product then Some pngA else productImage emptyHistoryState),
                    prompt := js ''Uploaded scene image''\<rparr>]"
     "currentHistoryIndex s1 =
               (if sceneImage emptyHistoryState = None \<and> productImage emptyHistoryState = None then 0
                else currentHistoryIndex (initialApp 1024) + 1)"
    by blast
  from C8_upload_replaces_or_appends [OF b, of 1024 pngB Scene "js ''Uploaded scene image''"]
  obtain s2 where s2: "updateStateWithNewImage 1024 twoUploads pngB Scene
               (js ''Uploaded scene image'') = Inr s2"
     "history s2 = (if sceneImage sceneAndProduct = None \<and> productImage sceneAndProduct = None then []
                else take (nat (currentHistoryIndex twoUploads + 1)) (history twoUploads)) @
               [sceneAndProduct\<lparr>sceneImage := (if Scene = Scene then Some pngB else sceneImage sceneAndProduct),
                    productImage := (if Scene = Product then Some pngB else productImage sceneAndProduct),
                    prompt := js ''Uploaded scene image''\<rparr>]"
     "currentHistoryIndex s2 =
               (if sceneImage sceneAndProduct = None \<and> productImage sceneAndProduct = None then 0
                else currentHistoryIndex twoUploads + 1)"
    by blast
  have h1: "history s1 = [sceneOnly]" "currentHistoryIndex s1 = 0"
    using s1(2,3) by (simp_all add: emptyHistoryState_def sceneOnly_def)
  have h2: "history s2 = [sceneOnly, sceneAndProduct,
                            sceneAndProduct\<lparr>sceneImage := Some pngB,
                                            prompt := js ''Uploaded scene image''\<rparr>]"
       "currentHistoryIndex s2 = 2"
    using s2(2,3) by (simp_all add: sceneAndProduct_def twoUploads_def initialApp_def)
  from a b s1(1) h1 s2(1) h2 show ?thesis by blast
qed

section \<open>Generation\<close>

lemma dropWhile_all_iff:
  "(\<forall>c\<in>set (dropWhile P s). P c) \<longleftrightarrow> (\<forall>c\<in>set s. P c)"
proof
  assume a: "\<forall>c\<in>set (dropWhile P s). P c"
  have "dropWhile P s = []"
  proof (rule ccontr)
    assume n: "dropWhile P s \<noteq> []"
    then have "\<not> P (hd (dropWhile P s))" by (rule hd_dropWhile)
    moreover from n have "hd (dropWhile P s) \<in> set (dropWhile P s)" by simp
    ultimately show False using a by blast
  qed
  then show "\<forall>c\<in>set s. P c" by (simp only: dropWhile_eq_Nil_conv)
next
  assume "\<forall>c\<in>set s. P c"
  then show "\<forall>c\<in>set (dropWhile P s). P c" by (blast dest: set_dropWhileD)
qed

lemma trim_empty_iff: "trim s = [] \<longleftrightarrow> (\<forall>c\<in>set s. isWhiteSpace c)"
proof -
  have "trim s = [] \<longleftrightarrow> (\<forall>c\<in>set (dropWhile isWhiteSpace s). isWhiteSpace c)"
    by (simp add: trim_def dropWhile_eq_Nil_conv)
  then show ?thesis by (simp only: dropWhile_all_iff)
qed

lemma handleGenerate_no_base:
  assumes "currentState st = Some cur" and "\<not> truthy (imageUrl cur)" and "sceneImage cur = None"
  shows "handleGenerate world st p =
           Inr \<lparr>app = st\<lparr>error := Some (js ''Please upload a scene photo first.'')\<rparr>,
                clientCalls = [], requests = []\<rparr>"
  using assms by (simp add: handleGenerate_def)

lemma baseParts_has_base:
  "baseParts world cur = Inr r \<Longrightarrow> truthy (imageUrl cur) \<or> sceneImage cur \<noteq> None"
  by (auto simp: baseParts_def split: if_splits option.splits)

lemma handleGenerate_base_failed:
  assumes "currentState st = Some cur" and "truthy (imageUrl cur) \<or> sceneImage cur \<noteq> None"
    and "baseParts world cur = Inl e"
  shows "handleGenerate world st p =
           Inr \<lparr>app = st\<lparr>error := Some (messageOr (typeErrorMessage world) e
                                         (js ''An unexpected error occurred.'')),
                         isLoading := False\<rparr>,
                clientCalls = [], requests = []\<rparr>"
  using assms by (auto simp add: handleGenerate_def generateFailed_def Let_def)

lemma handleGenerate_client_failed:
  assumes "currentState st = Some cur" and "baseParts world cur = Inr (scenePart, productPart)"
    and "generateProductPlacement world scenePart productPart (finalPrompt p) = (Inl e, reqs)"
  shows "handleGenerate world st p =
           Inr \<lparr>app = st\<lparr>error := Some (messageOr (typeErrorMessage world) e
                                         (js ''An unexpected error occurred.'')),
                         isLoading := False\<rparr>,
                clientCalls = [(scenePart, productPart, finalPrompt p)], requests = reqs\<rparr>"
  using assms baseParts_has_base [OF assms(2)]
  by (auto simp add: handleGenerate_def generateFailed_def Let_def)

lemma handleGenerate_succeeded:
  assumes "currentState st = Some cur" and "baseParts world cur = Inr (scenePart, productPart)"
    and "generateProductPlacement world scenePart productPart (finalPrompt p) = (Inr url, reqs)"
  shows "handleGenerate world st p =
           Inr \<lparr>app = st\<lparr>history := take (nat (currentHistoryIndex st + 1)) (history st) @
                                      [cur\<lparr>imageUrl := Some url, prompt := finalPrompt p\<rparr>],
                         currentHistoryIndex := currentHistoryIndex st + 1,
                         promptInput := [],
                         isLoading := False,
                         error := None,
                         mobileOnboardingStep :=
                           (if windowInnerWidth world < 768 then StepWorkspace
                            else mobileOnboardingStep st),
                         highlightTools :=
                           (if list_ex (\<lambda>s. truthy (imageUrl s)) (history st)
                            then highlightTools st else True)\<rparr>,
                clientCalls = [(scenePart, productPart, finalPrompt p)], requests = reqs\<rparr>"
proof -
  let ?i = "currentHistoryIndex st"
  from assms(1) have b: "0 \<le> ?i" "?i < int (length (history st))"
    by (simp_all add: currentState_def at_Some_iff)
  have sl: "slice0 (history st) (?i + 1) = take (nat (?i + 1)) (history st)"
    using b by (rule slice0_in_bounds)
  have len: "int (length (take (nat (?i + 1)) (history st))) = ?i + 1"
    using b by simp
  have cs: "currentState (st\<lparr>isLoading := True, error := None\<rparr>) = Some cur"
    using assms(1) by (simp add: currentState_def)
  have sp: "spread (Some cur) \<lparr>imageUrl_p = Some (Some url), prompt_p = None,
                                      sceneImage_p = None, productImage_p = None\<rparr> (finalPrompt p)
            = cur\<lparr>imageUrl := Some url, prompt := finalPrompt p\<rparr>"
    by (simp add: spread_def)
  show ?thesis
    using assms baseParts_has_base [OF assms(2)] len
    by (auto simp add: handleGenerate_def Let_def updateStateAndHistory_def cs sp sl)
qed


lemma pngA_neq_pngB: "pngB \<noteq> pngA"
  by (simp add: pngA_def pngB_def)

lemma baseParts_twoUploads:
  "baseParts noKeyWorld sceneAndProduct = Inr (partA, Some partB)"
  by (simp add: baseParts_def sceneAndProduct_def truthy_def fileToGenerativePart_def
      fileToBase64_def noKeyWorld_def offlineWorld_def pngA_neq_pngB partA_def partB_def)
    (simp add: pngA_def pngB_def js_def at_def)

lemma currentState_twoUploads: "currentState twoUploads = Some sceneAndProduct"
  by (simp add: twoUploads_def currentState_def at_def)

lemma no_key_fails:
  "generateProductPlacement noKeyWorld scenePart productPart q =
     (Inl (Error (js ''Failed to generate image: API_KEY environment variable is not set.'')), [])"
  by (simp add: generateProductPlacement_def noKeyWorld_def offlineWorld_def truthy_def
      rethrow_def interpolate_def js_def)

text \<open>
  C5. When the current snapshot has neither a result image nor a scene image, generate
  only stores the message asking for a scene photo: no call of the generation client, no
  request, and history and index as before.
\<close>

theorem C5_generate_without_base:
  assumes "currentState st = Some cur" and "imageUrl cur = None" and "sceneImage cur = None"
  shows "handleGenerate world st p =
           Inr \<lparr>app = st\<lparr>error := Some (js ''Please upload a scene photo first.'')\<rparr>,
                clientCalls = [], requests = []\<rparr>
       \<and> history (step world st EvGenerate) = history st
       \<and> currentHistoryIndex (step world st EvGenerate) = currentHistoryIndex st"
proof -
  have nb: "\<not> truthy (imageUrl cur)" using assms(2) by (simp add: truthy_def)
  have g: "handleGenerate world st q =
           Inr \<lparr>app = st\<lparr>error := Some (js ''Please upload a scene photo first.'')\<rparr>,
                clientCalls = [], requests = []\<rparr>" for q
    using assms(1) nb assms(3) by (rule handleGenerate_no_base)
  show ?thesis by (simp add: g generated_def)
qed

theorem C5_initial_generate_witness:
  "currentState (initialApp 1024) = Some emptyHistoryState
   \<and> imageUrl emptyHistoryState = None \<and> sceneImage emptyHistoryState = None
   \<and> handleGenerate offlineWorld (initialApp 1024) (js ''left'') =
       Inr \<lparr>app = (initialApp 1024)\<lparr>error := Some (js ''Please upload a scene photo first.'')\<rparr>,
            clientCalls = [], requests = []\<rparr>"
proof -
  have a: "currentState (initialApp 1024) = Some emptyHistoryState"
    by (simp add: initialApp_def currentState_def at_def)
  have b: "imageUrl emptyHistoryState = None" by (simp add: emptyHistoryState_def)
  have c: "sceneImage emptyHistoryState = None" by (simp add: emptyHistoryState_def)
  show ?thesis
    using a b c C5_generate_without_base [OF a b c, of offlineWorld "js ''left''"] by simp
qed

text \<open>
  C10. When the generation client throws, whatever the reason, the cells afterwards are
  those before the call with the error string set to the message and the loading flag
  cleared: history and index are unchanged and no snapshot is appended.
\<close>

theorem C10_failed_generation_keeps_history:
  assumes "currentState st = Some cur"
    and "baseParts world cur = Inr (scenePart, productPart)"
    and "generateProductPlacement world scenePart productPart (finalPrompt p) = (Inl e, reqs)"
  shows "handleGenerate world st p =
           Inr \<lparr>app = st\<lparr>error := Some (messageOr (typeErrorMessage world) e
                                         (js ''An unexpected error occurred.'')),
                         isLoading := False\<rparr>,
                clientCalls = [(scenePart, productPart, finalPrompt p)], requests = reqs\<rparr>
       \<and> history (generated st (handleGenerate world st p)) = history st
       \<and> currentHistoryIndex (generated st (handleGenerate world st p)) = currentHistoryIndex st"
proof -
  have g: "handleGenerate world st p =
           Inr \<lparr>app = st\<lparr>error := Some (messageOr (typeErrorMessage world) e
                                         (js ''An unexpected error occurred.'')),
                         isLoading := False\<rparr>,
                clientCalls = [(scenePart, productPart, finalPrompt p)], requests = reqs\<rparr>"
    using assms by (rule handleGenerate_client_failed)
  show ?thesis by (simp add: g generated_def)
qed

theorem C10_missing_credential_witness:
  "currentState twoUploads = Some sceneAndProduct
   \<and> baseParts noKeyWorld sceneAndProduct = Inr (partA, Some partB)
   \<and> generateProductPlacement noKeyWorld partA (Some partB) (finalPrompt (js ''left'')) =
       (Inl (Error (js ''Failed to generate image: API_KEY environment variable is not set.'')), [])
   \<and> handleGenerate noKeyWorld twoUploads (js ''left'') =
       Inr \<lparr>app = twoUploads\<lparr>error :=
                      Some (js ''Failed to generate image: API_KEY environment variable is not set.''),
                    isLoading := False\<rparr>,
            clientCalls = [(partA, Some partB, js ''left'')], requests = []\<rparr>
   \<and> history (generated twoUploads (handleGenerate noKeyWorld twoUploads (js ''left''))) =
       [sceneOnly, sceneAndProduct]
   \<and> currentHistoryIndex (generated twoUploads (handleGenerate noKeyWorld twoUploads (js ''left''))) = 1"
proof -
  have fp: "finalPrompt (js ''left'') = js ''left''"
    by (simp add: finalPrompt_def trim_def js_def isWhiteSpace_def)
  have m: "messageOr (typeErrorMessage noKeyWorld)
             (Error (js ''Failed to generate image: API_KEY environment variable is not set.''))
             (js ''An unexpected error occurred.'')
           = js ''Failed to generate image: API_KEY environment variable is not set.''"
    by (simp add: messageOr_def truthy_def js_def)
  note c = C10_failed_generation_keeps_history
             [OF currentState_twoUploads baseParts_twoUploads no_key_fails, of "js ''left''"]
  have h: "history twoUploads = [sceneOnly, sceneAndProduct]"
    "currentHistoryIndex twoUploads = 1"
    by (simp_all add: twoUploads_def)
  show ?thesis
    using c currentState_twoUploads baseParts_twoUploads
      no_key_fails [of partA "Some partB" "finalPrompt (js ''left'')"]
    by (simp add: fp m h generated_def)
qed


lemma generateProductPlacement_requests:
  "snd (generateProductPlacement world scenePart productPart q) =
     (if truthy (API_KEY world) then [requestParts scenePart productPart q] else [])"
  by (simp add: generateProductPlacement_def Let_def split: sum.splits)

lemma baseParts_twoUploads_online:
  "baseParts onlineWorld sceneAndProduct = Inr (partA, Some partB)"
  by (simp add: baseParts_def sceneAndProduct_def truthy_def fileToGenerativePart_def
      fileToBase64_def onlineWorld_def noKeyWorld_def offlineWorld_def pngA_neq_pngB
      partA_def partB_def)
    (simp add: pngA_def pngB_def js_def at_def)

lemma online_succeeds:
  "generateProductPlacement onlineWorld scenePart productPart q =
     (Inr (js ''data:image/png;base64,Qw==''), [requestParts scenePart productPart q])"
  by (simp add: generateProductPlacement_def onlineWorld_def noKeyWorld_def offlineWorld_def
      truthy_def decodeResponse_def responseParts_def pngResponse_def at_def partC_def
      startsWith_def interpolate_def js_def)

text \<open>
  C9. The effective prompt is the fixed default when the prompt is empty or made of
  white space only, and the prompt itself otherwise. It is the prompt the generation
  client is called with, the one interpolated into the request, and the label of the
  snapshot that a successful generation appends.
\<close>

theorem C9_effective_prompt:
  assumes "currentState st = Some cur"
    and "baseParts world cur = Inr (scenePart, productPart)"
  shows "finalPrompt p =
           (if (\<forall>c\<in>set p. isWhiteSpace c) then js ''Place the product naturally in the scene.''
            else p)
       \<and> (\<exists>out. handleGenerate world st p = Inr out
             \<and> clientCalls out = [(scenePart, productPart, finalPrompt p)]
             \<and> requests out =
                 (if truthy (API_KEY world)
                  then [requestParts scenePart productPart (finalPrompt p)] else [])
             \<and> (\<forall>url reqs.
                   generateProductPlacement world scenePart productPart (finalPrompt p) =
                     (Inr url, reqs) \<longrightarrow>
                   currentState (app out) =
                     Some (cur\<lparr>imageUrl := Some url, prompt := finalPrompt p\<rparr>)))"
proof -
  have f: "finalPrompt p =
           (if (\<forall>c\<in>set p. isWhiteSpace c) then js ''Place the product naturally in the scene.''
            else p)"
    by (simp add: finalPrompt_def trim_empty_iff)
  let ?i = "currentHistoryIndex st"
  from assms(1) have b: "0 \<le> ?i" "?i < int (length (history st))"
    by (simp_all add: currentState_def at_Some_iff)
  have len: "int (length (take (nat (?i + 1)) (history st))) = ?i + 1"
    using b by simp
  obtain r reqs where g: "generateProductPlacement world scenePart productPart (finalPrompt p) =
                            (r, reqs)"
    by (cases "generateProductPlacement world scenePart productPart (finalPrompt p)")
  have rq: "reqs = (if truthy (API_KEY world)
                    then [requestParts scenePart productPart (finalPrompt p)] else [])"
    using generateProductPlacement_requests [of world scenePart productPart "finalPrompt p"] g
    by simp
  have "\<exists>out. handleGenerate world st p = Inr out
             \<and> clientCalls out = [(scenePart, productPart, finalPrompt p)]
             \<and> requests out = reqs
             \<and> (\<forall>url reqs.
                   generateProductPlacement world scenePart productPart (finalPrompt p) =
                     (Inr url, reqs) \<longrightarrow>
                   currentState (app out) =
                     Some (cur\<lparr>imageUrl := Some url, prompt := finalPrompt p\<rparr>))"
  proof (cases r)
    case (Inl e)
    with g have "generateProductPlacement world scenePart productPart (finalPrompt p) =
                   (Inl e, reqs)" by simp
    from handleGenerate_client_failed [OF assms this] g Inl show ?thesis by simp
  next
    case (Inr url)
    with g have "generateProductPlacement world scenePart productPart (finalPrompt p) =
                   (Inr url, reqs)" by simp
    from handleGenerate_succeeded [OF assms this] g Inr len show ?thesis
      by (simp add: currentState_def at_def nth_append)
  qed
  with f rq show ?thesis by simp
qed

theorem C9_blank_prompt_witness:
  "currentState twoUploads = Some sceneAndProduct
   \<and> baseParts onlineWorld sceneAndProduct = Inr (partA, Some partB)
   \<and> finalPrompt (js ''  '') = js ''Place the product naturally in the scene.''
   \<and> (\<exists>out. handleGenerate onlineWorld twoUploads (js ''  '') = Inr out
         \<and> clientCalls out =
             [(partA, Some partB, js ''Place the product naturally in the scene.'')]
         \<and> currentState (app out) =
             Some (sceneAndProduct\<lparr>imageUrl := Some (js ''data:image/png;base64,Qw==''),
                                   prompt := js ''Place the product naturally in the scene.''\<rparr>))"
proof -
  have ws: "\<forall>c\<in>set (js ''  ''). isWhiteSpace c"
    by (simp add: js_def isWhiteSpace_def)
  note c = C9_effective_prompt [OF currentState_twoUploads baseParts_twoUploads_online,
             of "js ''  ''"]
  from c ws have fp: "finalPrompt (js ''  '') = js ''Place the product naturally in the scene.''"
    by simp
  from c obtain out where out: "handleGenerate onlineWorld twoUploads (js ''  '') = Inr out"
    "clientCalls out = [(partA, Some partB, finalPrompt (js ''  ''))]"
    "\<forall>url reqs.
        generateProductPlacement onlineWorld partA (Some partB) (finalPrompt (js ''  '')) =
          (Inr url, reqs) \<longrightarrow>
        currentState (app out) =
          Some (sceneAndProduct\<lparr>imageUrl := Some url, prompt := finalPrompt (js ''  '')\<rparr>)"
    by blast
  from out(3) online_succeeds [of partA "Some partB" "finalPrompt (js ''  '')"]
  have cs: "currentState (app out) =
          Some (sceneAndProduct\<lparr>imageUrl := Some (js ''data:image/png;base64,Qw==''),
                                prompt := finalPrompt (js ''  '')\<rparr>)"
    by blast
  from currentState_twoUploads baseParts_twoUploads_online fp out(1) out(2) cs
  show ?thesis by (simp add: fp)
qed

section \<open>The base image of a generation\<close>

lemma startsWith_iff: "startsWith s p \<longleftrightarrow> (\<exists>t. s = p @ t)"
proof
  assume "startsWith s p"
  then have "take (length p) s = p" by (simp add: startsWith_def)
  then have "s = p @ drop (length p) s" by (metis append_take_drop_id)
  then show "\<exists>t. s = p @ t" ..
next
  assume "\<exists>t. s = p @ t"
  then show "startsWith s p" by (auto simp: startsWith_def)
qed














































section \<open>Decoding the provider's response\<close>

lemma firstImage_found:
  "list_all passedOver before \<Longrightarrow> isImagePart part \<Longrightarrow>
   firstImage (before @ part # after) = Inr (Some (dataUri part))"
  by (induction before)
     (auto simp: passedOver_def isImagePart_def dataUri_def interpolate_def
           split: option.splits)

lemma firstImage_none: "list_all passedOver ps \<Longrightarrow> firstImage ps = Inr None"
  by (induction ps) (auto simp: passedOver_def split: option.splits)

lemma rethrow_Error:
  "rethrow world (Error m) = Error (js ''Failed to generate image: '' @ m)"
  by (simp add: rethrow_def interpolate_def)

lemma client_no_key:
  "\<not> truthy (API_KEY world) \<Longrightarrow>
   generateProductPlacement world scenePart productPart q = (Inl ConfigurationError, [])"
  by (simp add: generateProductPlacement_def rethrow_Error ConfigurationError_def js_def)

lemma client_found:
  assumes "truthy (API_KEY world)"
    and "generateContent world (requestParts scenePart productPart q) = Inr response"
    and "responseParts response = Inr ps"
    and "ps = before @ part # after" and "list_all passedOver before" and "isImagePart part"
  shows "generateProductPlacement world scenePart productPart q =
           (Inr (dataUri part), [requestParts scenePart productPart q])"
  using assms firstImage_found [of before part after]
  by (simp add: generateProductPlacement_def decodeResponse_def Let_def)

lemma client_refused:
  assumes "truthy (API_KEY world)"
    and "generateContent world (requestParts scenePart productPart q) = Inr response"
    and "responseParts response = Inr ps"
    and "list_all passedOver ps" and "responseText response = Some t" and "trim t \<noteq> []"
  shows "generateProductPlacement world scenePart productPart q =
           (Inl (ModelRefusedError (trim t)), [requestParts scenePart productPart q])"
  using assms firstImage_none [of ps]
  by (simp add: generateProductPlacement_def decodeResponse_def Let_def truthy_def
      rethrow_Error ModelRefusedError_def js_def)

lemma client_no_output:
  assumes "truthy (API_KEY world)"
    and "generateContent world (requestParts scenePart productPart q) = Inr response"
    and "responseParts response = Inr ps"
    and "list_all passedOver ps"
    and "responseText response = None \<or> map_option trim (responseText response) = Some []"
  shows "generateProductPlacement world scenePart productPart q =
           (Inl NoOutputError, [requestParts scenePart productPart q])"
  using assms firstImage_none [of ps]
  by (auto simp add: generateProductPlacement_def decodeResponse_def Let_def truthy_def
      rethrow_Error NoOutputError_def js_def)

lemma client_type_error:
  assumes "truthy (API_KEY world)"
    and "generateContent world (requestParts scenePart productPart q) = Inr response"
    and "responseParts response = Inl TypeError"
  shows "generateProductPlacement world scenePart productPart q =
           (Inl (Error (js ''Failed to generate image: '' @ typeErrorMessage world)),
            [requestParts scenePart productPart q])"
  using assms
  by (simp add: generateProductPlacement_def decodeResponse_def Let_def rethrow_def
      interpolate_def)

text \<open>
  C6, as amended. Without a credential (unset or empty) the client fails with the
  configuration error and no request is made. With one, for a response that has
  \<^verbatim>\<open>candidates[0].content.parts\<close>: the first part that is an image part, when every part
  before it is passed over, is returned as the data URI of its MIME type and data; when
  every part is passed over, the client fails with the refusal error carrying the trimmed
  response text if that text is not blank, and with the no-output error if the response
  text is absent or blank.
\<close>

theorem C6_client_outcomes:
  "(\<not> truthy (API_KEY world) \<longrightarrow>
      generateProductPlacement world scenePart productPart q = (Inl ConfigurationError, []))
   \<and> (truthy (API_KEY world) \<longrightarrow>
        generateContent world (requestParts scenePart productPart q) = Inr response \<longrightarrow>
        responseParts response = Inr ps \<longrightarrow>
          (\<forall>before part after.
              ps = before @ part # after \<longrightarrow> list_all passedOver before \<longrightarrow> isImagePart part \<longrightarrow>
              generateProductPlacement world scenePart productPart q =
                (Inr (dataUri part), [requestParts scenePart productPart q]))
        \<and> (list_all passedOver ps \<longrightarrow>
             (\<forall>t. responseText response = Some t \<longrightarrow> trim t \<noteq> [] \<longrightarrow>
                generateProductPlacement world scenePart productPart q =
                  (Inl (ModelRefusedError (trim t)), [requestParts scenePart productPart q]))
           \<and> (responseText response = None \<or> map_option trim (responseText response) = Some [] \<longrightarrow>
                generateProductPlacement world scenePart productPart q =
                  (Inl NoOutputError, [requestParts scenePart productPart q]))))"
  apply (intro conjI impI allI)
     apply (erule client_no_key)
    apply (erule (5) client_found)
   apply (erule (5) client_refused)
  apply (erule (4) client_no_output)
  done

text \<open>
  C6 as stated fails on two responses. A response whose only part is the text of one
  space has a text part and no image part, and the client fails with the no-output error,
  not with an error carrying the text. A response without candidates has neither image
  nor text, and the client fails with the engine's TypeError text, not with the no-output
  error.
\<close>

theorem C6_blank_text_counterexample:
  "responseParts blankTextResponse = Inr [\<lparr>inlineData = None, partText = Some (js '' '')\<rparr>]
   \<and> responseText blankTextResponse = Some (js '' '')
   \<and> fst (generateProductPlacement blankTextWorld partA None (js ''left'')) = Inl NoOutputError
   \<and> NoOutputError \<noteq> ModelRefusedError (js '' '')
   \<and> candidates blockedResponse = None
   \<and> responseText blockedResponse = None
   \<and> fst (generateProductPlacement blockedWorld partA None (js ''left'')) =
       Inl (Error (js ''Failed to generate image: undefined is not an object''))
   \<and> Error (js ''Failed to generate image: undefined is not an object'') \<noteq> NoOutputError"
proof -
  have a: "responseParts blankTextResponse =
             Inr [\<lparr>inlineData = None, partText = Some (js '' '')\<rparr>]"
    by (simp add: responseParts_def blankTextResponse_def at_def)
  have po: "list_all passedOver [\<lparr>inlineData = None, partText = Some (js '' '')\<rparr>]"
    by (simp add: passedOver_def)
  have b: "responseText blankTextResponse = Some (js '' '')"
    by (simp add: blankTextResponse_def)
  have t: "trim (js '' '') = []"
    by (simp add: trim_def js_def isWhiteSpace_def)
  have bt: "responseText blankTextResponse = None
            \<or> map_option trim (responseText blankTextResponse) = Some []"
    by (simp add: b t)
  have k: "truthy (API_KEY blankTextWorld)" "truthy (API_KEY blockedWorld)"
    by (simp_all add: blankTextWorld_def blockedWorld_def onlineWorld_def truthy_def js_def)
  have gc: "generateContent blankTextWorld (requestParts partA None (js ''left'')) =
              Inr blankTextResponse"
    "generateContent blockedWorld (requestParts partA None (js ''left'')) = Inr blockedResponse"
    by (simp_all add: blankTextWorld_def blockedWorld_def)
  have c: "fst (generateProductPlacement blankTextWorld partA None (js ''left'')) =
             Inl NoOutputError"
    using client_no_output [OF k(1) gc(1) a po bt] by simp
  have d: "NoOutputError \<noteq> ModelRefusedError (js '' '')"
    by (simp add: NoOutputError_def ModelRefusedError_def js_def)
  have e: "candidates blockedResponse = None" "responseText blockedResponse = None"
    by (simp_all add: blockedResponse_def)
  have rp: "responseParts blockedResponse = Inl TypeError"
    by (simp add: responseParts_def blockedResponse_def)
  have te: "typeErrorMessage blockedWorld = js ''undefined is not an object''"
    by (simp add: blockedWorld_def onlineWorld_def noKeyWorld_def offlineWorld_def)
  have f: "fst (generateProductPlacement blockedWorld partA None (js ''left'')) =
       Inl (Error (js ''Failed to generate image: undefined is not an object''))"
    using client_type_error [OF k(2) gc(2) rp] by (simp add: te js_def)
  have g: "Error (js ''Failed to generate image: undefined is not an object'') \<noteq> NoOutputError"
    by (simp add: NoOutputError_def js_def)
  from a b c d e f g show ?thesis by simp
qed

theorem C6_outcomes_witness:
  "truthy (API_KEY onlineWorld)
   \<and> generateContent onlineWorld (requestParts partA None (js ''left'')) = Inr pngResponse
   \<and> responseParts pngResponse = Inr ([] @ partC # [])
   \<and> isImagePart partC
   \<and> generateProductPlacement onlineWorld partA None (js ''left'') =
       (Inr (js ''data:image/png;base64,Qw==''), [requestParts partA None (js ''left'')])
   \<and> generateContent refusalWorld (requestParts partA None (js ''left'')) = Inr refusalResponse
   \<and> responseText refusalResponse = Some (js '' no '')
   \<and> generateProductPlacement refusalWorld partA None (js ''left'') =
       (Inl (ModelRefusedError (js ''no'')), [requestParts partA None (js ''left'')])
   \<and> generateProductPlacement noKeyWorld partA None (js ''left'') = (Inl ConfigurationError, [])
   \<and> generateContent emptyWorld (requestParts partA None (js ''left'')) = Inr emptyResponse
   \<and> responseParts emptyResponse = Inr []
   \<and> generateProductPlacement emptyWorld partA None (js ''left'') =
       (Inl NoOutputError, [requestParts partA None (js ''left'')])"
proof -
  have ek: "truthy (API_KEY emptyWorld)"
    by (simp add: emptyWorld_def onlineWorld_def truthy_def js_def)
  have eg: "generateContent emptyWorld (requestParts partA None (js ''left'')) = Inr emptyResponse"
    by (simp add: emptyWorld_def)
  have ep: "responseParts emptyResponse = Inr []"
    by (simp add: responseParts_def emptyResponse_def at_def)
  have eo: "list_all passedOver []" by simp
  have et: "responseText emptyResponse = None
            \<or> map_option trim (responseText emptyResponse) = Some []"
    by (simp add: emptyResponse_def)
  from C6_client_outcomes [of emptyWorld partA None "js ''left''" emptyResponse "[]"]
    ek eg ep eo et
  have r4: "generateProductPlacement emptyWorld partA None (js ''left'') =
              (Inl NoOutputError, [requestParts partA None (js ''left'')])"
    by blast
  have k: "truthy (API_KEY onlineWorld)" "truthy (API_KEY refusalWorld)"
    "\<not> truthy (API_KEY noKeyWorld)"
    by (simp_all add: refusalWorld_def onlineWorld_def noKeyWorld_def offlineWorld_def
        truthy_def js_def)
  have g: "generateContent onlineWorld (requestParts partA None (js ''left'')) = Inr pngResponse"
    "generateContent refusalWorld (requestParts partA None (js ''left'')) = Inr refusalResponse"
    by (simp_all add: refusalWorld_def onlineWorld_def)
  have p: "responseParts pngResponse = Inr ([] @ partC # [])"
    by (simp add: responseParts_def pngResponse_def at_def)
  have i: "isImagePart partC"
    by (simp add: isImagePart_def partC_def startsWith_def js_def)
  have u: "dataUri partC = js ''data:image/png;base64,Qw==''"
    by (simp add: dataUri_def partC_def interpolate_def js_def)
  have rp: "responseParts refusalResponse =
              Inr [\<lparr>inlineData = None, partText = Some (js '' no '')\<rparr>]"
    by (simp add: responseParts_def refusalResponse_def at_def)
  have po: "list_all passedOver [\<lparr>inlineData = None, partText = Some (js '' no '')\<rparr>]"
    by (simp add: passedOver_def)
  have rt: "responseText refusalResponse = Some (js '' no '')"
    by (simp add: refusalResponse_def)
  have t: "trim (js '' no '') = js ''no''"
    by (simp add: trim_def js_def isWhiteSpace_def)
  have tn: "trim (js '' no '') \<noteq> []"
    by (simp add: t) (simp add: js_def)
  have sp: "[] @ partC # [] = [] @ partC # ([] :: Part list)" by simp
  have e0: "list_all passedOver []" by simp
  from C6_client_outcomes [of onlineWorld partA None "js ''left''" pngResponse "[] @ partC # []"]
    k(1) g(1) p i sp e0
  have r1: "generateProductPlacement onlineWorld partA None (js ''left'') =
       (Inr (dataUri partC), [requestParts partA None (js ''left'')])"
    by blast
  from C6_client_outcomes [of refusalWorld partA None "js ''left''" refusalResponse
         "[\<lparr>inlineData = None, partText = Some (js '' no '')\<rparr>]"]
    k(2) g(2) rp po rt tn
  have r2: "generateProductPlacement refusalWorld partA None (js ''left'') =
       (Inl (ModelRefusedError (trim (js '' no ''))), [requestParts partA None (js ''left'')])"
    by blast
  from C6_client_outcomes [of noKeyWorld partA None "js ''left''"] k(3)
  have r3: "generateProductPlacement noKeyWorld partA None (js ''left'') =
              (Inl ConfigurationError, [])"
    by blast
  from k(1) g p i r1 rt r2 r3 eg ep r4 show ?thesis by (simp add: u t)
qed

section \<open>Import from a URL\<close>

lemma messageOr_Error: "m \<noteq> [] \<Longrightarrow> messageOr te (Error m) dflt = m"
  by (simp add: messageOr_def truthy_def)

lemma decimal_nonempty: "decimal n \<noteq> []"
  by (subst decimal.simps) simp

text \<open>
  C7. An import whose fetched payload does not load as an image ends with the
  invalid-image message; one whose response is not 2xx ends with the fetch error of that
  status, and one whose \<^verbatim>\<open>fetch\<close> or \<^verbatim>\<open>blob()\<close> throws ends with the thrown message. In each
  case the callback is not called, the state of the parent (history, index, the images
  held) is as before, and the URL field is kept.
\<close>

theorem C7_failed_import_changes_nothing:
  assumes "urlInput u \<noteq> []" and "encodeURIComponent browser (urlInput u) = Inr encoded"
  shows "(\<forall>response b.
            fetch browser (js ''https://api.allorigins.win/raw?url='' @ encoded) = Inr response \<longrightarrow>
            ok response \<longrightarrow> blob response = Inr b \<longrightarrow> \<not> imageLoads browser b \<longrightarrow>
            handleFetchFromUrl browser (Some callback) u p =
              \<lparr>uploader = u\<lparr>fetchError := Some InvalidImageError, isFetching := False\<rparr>,
               parent = p, uploads = [], rejection = None\<rparr>)
       \<and> (\<forall>response.
            fetch browser (js ''https://api.allorigins.win/raw?url='' @ encoded) = Inr response \<longrightarrow>
            \<not> ok response \<longrightarrow>
            handleFetchFromUrl browser (Some callback) u p =
              \<lparr>uploader = u\<lparr>fetchError := Some (FetchError (status response)),
                             isFetching := False\<rparr>,
               parent = p, uploads = [], rejection = None\<rparr>)
       \<and> (\<forall>e.
            fetch browser (js ''https://api.allorigins.win/raw?url='' @ encoded) = Inl e \<longrightarrow>
            handleFetchFromUrl browser (Some callback) u p =
              \<lparr>uploader = u\<lparr>fetchError :=
                               Some (messageOr (browserTypeError browser) e
                                       (js ''An error occurred. Please check the URL and try again.'')),
                             isFetching := False\<rparr>,
               parent = p, uploads = [], rejection = None\<rparr>)
       \<and> (\<forall>response e.
            fetch browser (js ''https://api.allorigins.win/raw?url='' @ encoded) = Inr response \<longrightarrow>
            ok response \<longrightarrow> blob response = Inl e \<longrightarrow>
            handleFetchFromUrl browser (Some callback) u p =
              \<lparr>uploader = u\<lparr>fetchError :=
                               Some (messageOr (browserTypeError browser) e
                                       (js ''An error occurred. Please check the URL and try again.'')),
                             isFetching := False\<rparr>,
               parent = p, uploads = [], rejection = None\<rparr>)"
proof -
  have inv: "messageOr (browserTypeError browser) (Error InvalidImageError)
               (js ''An error occurred. Please check the URL and try again.'') = InvalidImageError"
    by (rule messageOr_Error) (simp add: InvalidImageError_def js_def)
  have fe: "messageOr (browserTypeError browser) (Error (FetchError n))
               (js ''An error occurred. Please check the URL and try again.'') = FetchError n" for n
    by (rule messageOr_Error) (simp add: FetchError_def js_def)
  show ?thesis
    using assms inv fe
    by (simp add: handleFetchFromUrl_def Let_def fetchFailed_def
        InvalidImageError_def [symmetric] FetchError_def [symmetric] del: decimal.simps)
qed


lemma decimal_404: "decimal 404 = js ''404''"
  by (simp add: js_def)

theorem C7_html_page_witness:
  "urlInput pastedUrl \<noteq> []
   \<and> encodeURIComponent htmlBrowser (urlInput pastedUrl) =
       Inr (js ''https%3A%2F%2Fexample.com%2Fpage'')
   \<and> handleFetchFromUrl htmlBrowser (Some (\<lambda>file st. handleSceneUrlUpload 1024 st file))
         pastedUrl twoUploads =
       \<lparr>uploader = pastedUrl\<lparr>fetchError := Some InvalidImageError, isFetching := False\<rparr>,
        parent = twoUploads, uploads = [], rejection = None\<rparr>
   \<and> handleFetchFromUrl notFoundBrowser (Some (\<lambda>file st. handleSceneUrlUpload 1024 st file))
         pastedUrl twoUploads =
       \<lparr>uploader = pastedUrl\<lparr>fetchError := Some (js ''Failed to fetch image. Status: 404''),
                              isFetching := False\<rparr>,
        parent = twoUploads, uploads = [], rejection = None\<rparr>"
proof -
  let ?cb = "\<lambda>file st. handleSceneUrlUpload 1024 st file"
  let ?page = "\<lparr>status = 200, blob = Inr \<lparr>blobType = js ''text/html'', blobBytes = [60]\<rparr>\<rparr>"
  let ?missing = "\<lparr>status = 404, blob = Inl NonError\<rparr> :: FetchResponse"
  have a: "urlInput pastedUrl \<noteq> []" by (simp add: pastedUrl_def js_def)
  have b: "encodeURIComponent htmlBrowser (urlInput pastedUrl) =
             Inr (js ''https%3A%2F%2Fexample.com%2Fpage'')"
    by (simp add: htmlBrowser_def)
  have b': "encodeURIComponent notFoundBrowser (urlInput pastedUrl) =
             Inr (js ''https%3A%2F%2Fexample.com%2Fpage'')"
    by (simp add: notFoundBrowser_def htmlBrowser_def)
  have f: "fetch htmlBrowser (js ''https://api.allorigins.win/raw?url='' @
             js ''https%3A%2F%2Fexample.com%2Fpage'') = Inr ?page"
    by (simp add: htmlBrowser_def)
  have f': "fetch notFoundBrowser (js ''https://api.allorigins.win/raw?url='' @
             js ''https%3A%2F%2Fexample.com%2Fpage'') = Inr ?missing"
    by (simp add: notFoundBrowser_def)
  have o: "ok ?page" "\<not> ok ?missing" by (simp_all add: ok_def)
  have bl: "blob ?page = Inr \<lparr>blobType = js ''text/html'', blobBytes = [60]\<rparr>" by simp
  have il: "\<not> imageLoads htmlBrowser \<lparr>blobType = js ''text/html'', blobBytes = [60]\<rparr>"
    by (simp add: htmlBrowser_def)
  have st: "FetchError (status ?missing) = js ''Failed to fetch image. Status: 404''"
    by (simp add: FetchError_def decimal_404 del: decimal.simps) (simp add: js_def)
  from C7_failed_import_changes_nothing [OF a b, of ?cb twoUploads] f o(1) bl il
  have r1: "handleFetchFromUrl htmlBrowser (Some ?cb) pastedUrl twoUploads =
       \<lparr>uploader = pastedUrl\<lparr>fetchError := Some InvalidImageError, isFetching := False\<rparr>,
        parent = twoUploads, uploads = [], rejection = None\<rparr>"
    by blast
  from C7_failed_import_changes_nothing [OF a b', of ?cb twoUploads] f' o(2)
  have r2: "handleFetchFromUrl notFoundBrowser (Some ?cb) pastedUrl twoUploads =
       \<lparr>uploader = pastedUrl\<lparr>fetchError := Some (FetchError (status ?missing)),
                              isFetching := False\<rparr>,
        parent = twoUploads, uploads = [], rejection = None\<rparr>"
    by blast
  from a b r1 r2 show ?thesis by (simp only: st) simp
qed

section \<open>The index in runs without redo\<close>

lemma renders_iff:
  "renders st \<longleftrightarrow> 0 \<le> currentHistoryIndex st \<and> currentHistoryIndex st < int (length (history st))"
  by (simp add: renders_def currentState_def at_def)

lemma renders_upload:
  "updateStateWithNewImage w st f t action = Inr st' \<Longrightarrow> renders st'"
  by (auto simp: updateStateWithNewImage_def renders_iff Let_def split: option.splits if_splits)

lemma renders_orUnchanged_upload:
  "renders st \<Longrightarrow> renders (orUnchanged st (updateStateWithNewImage w st f t action))"
  by (cases "updateStateWithNewImage w st f t action")
     (auto simp: orUnchanged_def dest: renders_upload)

lemma renders_generate:
  assumes "renders st"
  shows "renders (generated st (handleGenerate world st p))"
proof -
  from assms obtain cur where cur: "currentState st = Some cur"
    by (auto simp: renders_def)
  from assms have b: "0 \<le> currentHistoryIndex st"
    "currentHistoryIndex st < int (length (history st))"
    by (simp_all add: renders_iff)
  show ?thesis
  proof (cases "truthy (imageUrl cur) \<or> sceneImage cur \<noteq> None")
    case False
    then have "handleGenerate world st p =
           Inr \<lparr>app = st\<lparr>error := Some (js ''Please upload a scene photo first.'')\<rparr>,
                clientCalls = [], requests = []\<rparr>"
      using cur by (simp add: handleGenerate_no_base)
    then show ?thesis using assms by (simp add: generated_def renders_iff)
  next
    case True
    show ?thesis
    proof (cases "baseParts world cur")
      case (Inl e)
      from handleGenerate_base_failed [OF cur True Inl, of p] assms show ?thesis
        by (simp add: generated_def renders_iff)
    next
      case (Inr r)
      obtain sp pp where r: "r = (sp, pp)" by (cases r)
      obtain res reqs where g: "generateProductPlacement world sp pp (finalPrompt p) = (res, reqs)"
        by (cases "generateProductPlacement world sp pp (finalPrompt p)")
      show ?thesis
      proof (cases res)
        case (Inl e)
        from handleGenerate_client_failed [OF cur Inr [unfolded r] g [unfolded Inl]] assms
        show ?thesis by (simp add: generated_def renders_iff)
      next
        case (Inr url)
        from handleGenerate_succeeded [OF cur \<open>baseParts world cur = Inr r\<close> [unfolded r]
               g [unfolded Inr]] b
        show ?thesis by (simp add: generated_def renders_iff)
      qed
    qed
  qed
qed

lemma renders_step:
  assumes "renders st" and "ev \<noteq> EvRedo"
  shows "renders (step world st ev)"
proof (cases ev)
  case (EvImageUpload fo t)
  then show ?thesis using assms(1)
    by (cases fo)
      (simp add: handleImageUpload_def orUnchanged_def,
       simp add: handleImageUpload_def renders_orUnchanged_upload)
next
  case (EvSceneUrlUpload f)
  then show ?thesis using assms(1)
    by (simp add: handleSceneUrlUpload_def renders_orUnchanged_upload)
next
  case (EvProductUrlUpload f)
  then show ?thesis using assms(1)
    by (simp add: handleProductUrlUpload_def renders_orUnchanged_upload)
next
  case (EvImageCapture f)
  show ?thesis
  proof (cases "cameraFor st")
    case None
    then show ?thesis using assms(1) EvImageCapture
      by (simp add: handleImageCapture_def orUnchanged_def)
  next
    case (Some t)
    let ?r = "updateStateWithNewImage (windowInnerWidth world) st f t
                (js ''Captured '' @ imageTypeName t @ js '' image from camera'')"
    show ?thesis
    proof (cases ?r)
      case (Inl e)
      then show ?thesis using assms(1) EvImageCapture Some
        by (simp add: handleImageCapture_def orUnchanged_def)
    next
      case (Inr st1)
      from renders_upload [OF Inr] have "renders st1" .
      then show ?thesis using EvImageCapture Some Inr
        by (simp add: handleImageCapture_def orUnchanged_def renders_iff)
    qed
  qed
next
  case (EvOpenCamera t)
  then show ?thesis using assms(1) by (simp add: handleOpenCamera_def renders_iff)
next
  case EvCloseCamera
  then show ?thesis using assms(1) by (simp add: renders_iff)
next
  case EvInitiateGeneration
  have "renders (if mobilePanel st \<noteq> None then st\<lparr>mobilePanel := None\<rparr> else st)"
    using assms(1) by (simp add: renders_iff)
  from renders_generate [OF this, of world "promptInput st"]
  show ?thesis using EvInitiateGeneration
    by (simp add: handleInitiateGeneration_def Let_def)
next
  case EvGenerate
  then show ?thesis using assms(1) by (simp add: renders_generate)
next
  case (EvApplyLook lookName)
  let ?lp = "js ''Apply a '' @ [0x27] @ lookName @ [0x27] @ js '' look to the image.''"
  have "renders (st\<lparr>promptInput := ?lp\<rparr>)"
    using assms(1) by (simp add: renders_iff)
  from renders_generate [OF this, of world ?lp]
  show ?thesis using EvApplyLook
    by (simp add: handleApplyLook_def Let_def)
next
  case EvUndo
  then show ?thesis using assms(1) by (simp add: handleUndo_def renders_iff)
next
  case EvRedo
  then show ?thesis using assms(2) by simp
next
  case EvStartOver
  then show ?thesis
    by (simp add: handleStartOver_def renders_iff Let_def)
next
  case (EvNavClick p)
  then show ?thesis using assms(1) by (simp add: handleNavClick_def renders_iff Let_def)
next
  case (EvSetPrompt p)
  then show ?thesis using assms(1) by (simp add: renders_iff)
next
  case EvClosePanel
  then show ?thesis using assms(1) by (simp add: renders_iff)
qed

text \<open>
  Redo is the one handler that takes the index out of the history: along a run without
  it the index stays a position of the history.
\<close>

lemma index_in_bounds_without_redo:
  assumes "renders st" and "EvRedo \<notin> snd ` set evs"
  shows "0 \<le> currentHistoryIndex (run st evs)
         \<and> currentHistoryIndex (run st evs) < int (length (history (run st evs)))"
proof -
  have "renders (run st evs)"
    using assms
  proof (induction evs arbitrary: st)
    case Nil
    then show ?case by simp
  next
    case (Cons e evs)
    obtain world ev where e: "e = (world, ev)" by (cases e)
    from Cons.prems(2) e have ne: "ev \<noteq> EvRedo" and rest: "EvRedo \<notin> snd ` set evs"
      by auto
    from renders_step [OF Cons.prems(1) ne] have "renders (step world st ev)" .
    from Cons.IH [OF this rest] Cons.prems(1) e show ?case by simp
  qed
  then show ?thesis by (simp add: renders_iff)
qed

lemma handleRedo_at_last:
  "currentHistoryIndex st = int (length (history st)) - 1 \<Longrightarrow> handleRedo st = st"
  by (simp add: handleRedo_def)

lemma handleUndo_at_first: "currentHistoryIndex st = 0 \<Longrightarrow> handleUndo st = st"
  by (simp add: handleUndo_def)

text \<open>
  In every state of a run the index is a position of the history or \<open>-1\<close>.
\<close>

lemma reachable_index_range:
  "reachable st \<Longrightarrow>
   - 1 \<le> currentHistoryIndex st \<and> currentHistoryIndex st < int (length (history st))"
proof (induction rule: reachable.induct)
  case (initial w)
  show ?case by (simp add: initialApp_def)
next
  case (step st world ev)
  show ?case
  proof (cases "ev = EvRedo")
    case True
    with step.hyps(2) show ?thesis by (auto simp: renders_iff handleRedo_def)
  next
    case False
    from renders_step [OF step.hyps(2) False, of world] show ?thesis
      by (simp add: renders_iff)
  qed
qed

end
